(* ===== verification/Prelude.thy ===== *)
theory Prelude
  imports Complex_Main
begin

text \<open>
  Shared vocabulary of the development: the names of the ROS quantities the controller
  reads (times and durations as reals in seconds, the parameter server as a map), the
  collections of evaluation rules the component theories fill, and the facts about real
  numbers that the smoothing proofs share: a convex combination of two values bounded by
  \<open>M\<close> is bounded by \<open>M\<close>, and repeated scaling by a factor in \<open>[0, 1]\<close>
  never increases a magnitude.
\<close>

named_theorems double_fin "evaluation of double operations on finite operands"
named_theorems shaping_defs "definitions unfolded by the functional lemmas of the controller"

type_synonym ros_time = real
type_synonym ros_duration = real
type_synonym param_server = "string \<rightharpoonup> string"

lemma convex_abs_bound:
  fixes a s t M :: real
  assumes "0 \<le> a" "a \<le> 1" "\<bar>s\<bar> \<le> M" "\<bar>t\<bar> \<le> M"
  shows "\<bar>a * s + (1 - a) * t\<bar> \<le> M"
proof -
  have "\<bar>a * s + (1 - a) * t\<bar> \<le> a * \<bar>s\<bar> + (1 - a) * \<bar>t\<bar>"
    using assms(1,2) by (simp add: abs_mult order_trans [OF abs_triangle_ineq])
  also have "\<dots> \<le> a * M + (1 - a) * M"
    using assms by (intro add_mono mult_left_mono) auto
  finally show ?thesis by (simp add: algebra_simps)
qed

lemma scaled_abs_le:
  fixes a x :: real
  assumes "0 \<le> a" "a \<le> 1"
  shows "\<bar>a * x\<bar> \<le> \<bar>x\<bar>"
  using assms by (simp add: abs_mult mult_left_le_one_le)

lemma power_scaled_abs_antimono:
  fixes a x :: real
  assumes "0 \<le> a" "a \<le> 1"
  shows "\<bar>a ^ Suc n * x\<bar> \<le> \<bar>a ^ n * x\<bar>"
proof -
  have "\<bar>a * (a ^ n * x)\<bar> \<le> \<bar>a ^ n * x\<bar>" using assms by (rule scaled_abs_le)
  then show ?thesis by (simp add: mult.assoc)
qed

lemma power_scaled_nonzero:
  fixes a x :: real
  assumes "a \<noteq> 0" "x \<noteq> 0"
  shows "a ^ n * x \<noteq> 0"
  using assms by simp

lemma power_scaled_tendsto_zero:
  fixes a x :: real
  assumes "0 \<le> a" "a < 1"
  shows "(\<lambda>n. a ^ n * x) \<longlonglongrightarrow> 0"
  using LIMSEQ_power_zero [of a] assms by (auto intro: tendsto_mult_left_zero)

lemma power_scaled_eventually_small:
  fixes a x e :: real
  assumes "0 \<le> a" "a < 1" "0 < e"
  shows "\<exists>N. \<forall>n\<ge>N. \<bar>a ^ n * x\<bar> < e"
  using power_scaled_tendsto_zero [OF assms(1,2), of x] assms(3) by (simp add: LIMSEQ_iff)

end
