(* ===== verification/Double.thy ===== *)
theory Double
  imports Prelude
begin

text \<open>
  The C++ \<open>double\<close> values the controller computes with. A value is a finite real, one of
  the two infinities, or NaN; the operations follow the IEEE 754 case rules for the special
  values (NaN absorbs, \<open>\<infinity> - \<infinity>\<close> and \<open>0 * \<infinity>\<close> are NaN, comparisons with NaN are
  false, \<open>x != x\<close> holds exactly for NaN) and compute exactly on finite operands: rounding
  and overflow of finite values are not modelled, so finite results are the real-number
  results of the same expression. The operations are given as instances of the syntactic
  type classes, so that the controller's formulas read as the source writes them
  (\<open>alpha * v + (1 - alpha) * v_max / 2 * t\<close>).
\<close>

datatype double = Fin real | PInf | NInf | NaN

fun is_finite :: "double \<Rightarrow> bool" where
  "is_finite (Fin _) = True"
| "is_finite _ = False"

fun dneg :: "double \<Rightarrow> double" where
  "dneg (Fin a) = Fin (- a)"
| "dneg PInf = NInf"
| "dneg NInf = PInf"
| "dneg NaN = NaN"

fun dadd :: "double \<Rightarrow> double \<Rightarrow> double" where
  "dadd NaN _ = NaN"
| "dadd _ NaN = NaN"
| "dadd (Fin a) (Fin b) = Fin (a + b)"
| "dadd PInf NInf = NaN"
| "dadd NInf PInf = NaN"
| "dadd PInf _ = PInf"
| "dadd NInf _ = NInf"
| "dadd _ PInf = PInf"
| "dadd _ NInf = NInf"

text \<open>The sign of an infinite product or quotient, from the signs of its operands.\<close>

definition inf_of_sign :: "real \<Rightarrow> double" where
  "inf_of_sign s = (if s = 0 then NaN else if 0 < s then PInf else NInf)"

fun dmul :: "double \<Rightarrow> double \<Rightarrow> double" where
  "dmul NaN _ = NaN"
| "dmul _ NaN = NaN"
| "dmul (Fin a) (Fin b) = Fin (a * b)"
| "dmul (Fin a) PInf = inf_of_sign a"
| "dmul (Fin a) NInf = inf_of_sign (- a)"
| "dmul PInf (Fin b) = inf_of_sign b"
| "dmul NInf (Fin b) = inf_of_sign (- b)"
| "dmul PInf PInf = PInf"
| "dmul NInf NInf = PInf"
| "dmul PInf NInf = NInf"
| "dmul NInf PInf = NInf"

fun ddiv :: "double \<Rightarrow> double \<Rightarrow> double" where
  "ddiv NaN _ = NaN"
| "ddiv _ NaN = NaN"
| "ddiv (Fin a) (Fin b) = (if b = 0 then inf_of_sign a else Fin (a / b))"
| "ddiv (Fin a) _ = Fin 0"
| "ddiv PInf (Fin b) = inf_of_sign b"
| "ddiv NInf (Fin b) = inf_of_sign (- b)"
| "ddiv _ _ = NaN"

text \<open>Ordered comparison \<open><\<close>: false whenever NaN is involved.\<close>

fun dless :: "double \<Rightarrow> double \<Rightarrow> bool" where
  "dless (Fin a) (Fin b) = (a < b)"
| "dless NInf (Fin _) = True"
| "dless NInf PInf = True"
| "dless (Fin _) PInf = True"
| "dless _ _ = False"

text \<open>Equality \<open>==\<close> of doubles: NaN equals nothing, itself included.\<close>

fun deq :: "double \<Rightarrow> double \<Rightarrow> bool" where
  "deq (Fin a) (Fin b) = (a = b)"
| "deq PInf PInf = True"
| "deq NInf NInf = True"
| "deq _ _ = False"

definition dneq :: "double \<Rightarrow> double \<Rightarrow> bool" where
  "dneq a b = (\<not> deq a b)"

text \<open>\<open>std::cos\<close>: NaN on the infinities and on NaN.\<close>

fun dcos :: "double \<Rightarrow> double" where
  "dcos (Fin a) = Fin (cos a)"
| "dcos _ = NaN"

instantiation double :: "{zero, one, plus, minus, uminus, times, inverse, ord}"
begin

definition zero_double :: double where "zero_double = Fin 0"
definition one_double :: double where "one_double = Fin 1"
definition plus_double :: "double \<Rightarrow> double \<Rightarrow> double" where "plus_double = dadd"
definition minus_double :: "double \<Rightarrow> double \<Rightarrow> double" where
  "minus_double a b = dadd a (dneg b)"
definition uminus_double :: "double \<Rightarrow> double" where "uminus_double = dneg"
definition times_double :: "double \<Rightarrow> double \<Rightarrow> double" where "times_double = dmul"
definition divide_double :: "double \<Rightarrow> double \<Rightarrow> double" where "divide_double = ddiv"
definition inverse_double :: "double \<Rightarrow> double" where "inverse_double = ddiv (Fin 1)"
definition less_double :: "double \<Rightarrow> double \<Rightarrow> bool" where "less_double = dless"
definition less_eq_double :: "double \<Rightarrow> double \<Rightarrow> bool" where
  "less_eq_double a b = (dless a b \<or> (deq a b))"

instance ..

end

subsection \<open>Evaluation on finite operands\<close>

lemma fin_zero [simp, double_fin]: "(0::double) = Fin 0"
  by (simp add: zero_double_def)

lemma fin_one [simp, double_fin]: "(1::double) = Fin 1"
  by (simp add: one_double_def)

lemma fin_add [simp, double_fin]: "Fin a + Fin b = Fin (a + b)"
  by (simp add: plus_double_def)

lemma fin_sub [simp, double_fin]: "Fin a - Fin b = Fin (a - b)"
  by (simp add: minus_double_def)

lemma fin_neg [simp, double_fin]: "- Fin a = Fin (- a)"
  by (simp add: uminus_double_def)

lemma fin_mul [simp, double_fin]: "Fin a * Fin b = Fin (a * b)"
  by (simp add: times_double_def)

lemma fin_div [simp, double_fin]: "b \<noteq> 0 \<Longrightarrow> Fin a / Fin b = Fin (a / b)"
  by (simp add: divide_double_def)

lemma fin_less [simp, double_fin]: "(Fin a < Fin b) = (a < b)"
  by (simp add: less_double_def)

lemma fin_cos [simp, double_fin]: "dcos (Fin a) = Fin (cos a)"
  by simp

subsection \<open>The special values\<close>

lemma dneq_self_iff_nan [simp]: "dneq x x \<longleftrightarrow> x = NaN"
  by (cases x) (simp_all add: dneq_def)

lemma nan_less [simp]: "\<not> NaN < x" "\<not> x < NaN"
  by (cases x; simp add: less_double_def)+

lemma nan_add [simp]: "NaN + x = NaN" "x + NaN = NaN"
  by (cases x; simp add: plus_double_def)+

lemma nan_mul [simp]: "NaN * x = NaN" "x * NaN = NaN"
  by (cases x; simp add: times_double_def)+

lemma pinf_add_fin [simp]: "PInf + Fin a = PInf" "Fin a + PInf = PInf"
  by (simp_all add: plus_double_def)

lemma fin_mul_pinf [simp]: "0 < a \<Longrightarrow> Fin a * PInf = PInf"
  by (simp add: times_double_def inf_of_sign_def)

lemma zero_less_pinf [simp]: "(0::double) < PInf"
  by (simp add: less_double_def)

text \<open>Finite operands give finite results for \<open>+\<close>, \<open>-\<close>, \<open>*\<close> and \<open>cos\<close>.\<close>

lemma is_finite_iff: "is_finite x \<longleftrightarrow> (\<exists>a. x = Fin a)"
  by (cases x) auto

lemma finite_ops [intro]:
  assumes "is_finite x" "is_finite y"
  shows "is_finite (x + y)" "is_finite (x - y)" "is_finite (x * y)" "is_finite (dcos x)"
  using assms by (auto simp: is_finite_iff)

end
