(* ===== verification/Messages.thy ===== *)
theory Messages
  imports Double
begin

text \<open>
  The data the controller exchanges with its collaborators, outside this repository:
  the \<open>geometry_msgs::Vector3\<close> and \<open>geometry_msgs::Twist\<close> messages (a default-constructed
  message has all fields zero), the part of \<open>franka::RobotState\<close> the controller reads
  (the contact and collision flags and the commanded end-effector twist \<open>O_dP_EE_d\<close>,
  each a \<open>std::array<double, 6>\<close>), the hardware a controller binds to at initialisation,
  and the two effects a control tick has on the outside world: the command written to the
  Cartesian velocity handle and the status message published on
  \<open>/franka_control/current_target_velocity\<close>. The selectors of \<open>Vector3\<close> are
  \<open>vx\<close>, \<open>vy\<close>, \<open>vz\<close> because \<open>x\<close>, \<open>y\<close>, \<open>z\<close> would take those names from
  every lemma's variables.
\<close>

record vector3 =
  vx :: double
  vy :: double
  vz :: double

record twist =
  linear :: vector3
  angular :: vector3

definition zero_vector3 :: vector3 where
  "zero_vector3 = \<lparr>vx = 0, vy = 0, vz = 0\<rparr>"

definition zero_twist :: twist where
  "zero_twist = \<lparr>linear = zero_vector3, angular = zero_vector3\<rparr>"

definition fin_vector3 :: "real \<Rightarrow> real \<Rightarrow> real \<Rightarrow> vector3" where
  "fin_vector3 a b c = \<lparr>vx = Fin a, vy = Fin b, vz = Fin c\<rparr>"

definition twist_components :: "twist \<Rightarrow> double list" where
  "twist_components t =
     [vx (linear t), vy (linear t), vz (linear t), vx (angular t), vy (angular t), vz (angular t)]"

definition vector3_finite :: "vector3 \<Rightarrow> bool" where
  "vector3_finite v \<longleftrightarrow> is_finite (vx v) \<and> is_finite (vy v) \<and> is_finite (vz v)"

definition twist_finite :: "twist \<Rightarrow> bool" where
  "twist_finite t \<longleftrightarrow> list_all is_finite (twist_components t)"

record robot_state =
  cartesian_contact :: "double list"
  cartesian_collision :: "double list"
  O_dP_EE_d :: "double list"

text \<open>
  The hardware seen by \<open>init\<close>: the Cartesian velocity interface (\<open>None\<close> for a null
  pointer, else the names of the handles it serves) and whether a state interface exists.
  The robot states served under each handle name are read at every tick.
\<close>

record robot_hw =
  velocity_cartesian_interface :: "string list option"
  has_state_interface :: bool

type_synonym state_handles = "string \<rightharpoonup> robot_state"

datatype effect = SetCommand "double list" | Publish twist

definition sent_commands :: "effect list \<Rightarrow> double list list" where
  "sent_commands es = concat (map (\<lambda>e. case e of SetCommand xs \<Rightarrow> [xs] | Publish _ \<Rightarrow> []) es)"

lemma zero_vector3_sel [simp]:
  "vx zero_vector3 = 0" "vy zero_vector3 = 0" "vz zero_vector3 = 0"
  by (simp_all add: zero_vector3_def)

lemma zero_twist_sel [simp]:
  "linear zero_twist = zero_vector3" "angular zero_twist = zero_vector3"
  by (simp_all add: zero_twist_def)

lemma fin_vector3_sel [simp]:
  "vx (fin_vector3 a b c) = Fin a" "vy (fin_vector3 a b c) = Fin b" "vz (fin_vector3 a b c) = Fin c"
  by (simp_all add: fin_vector3_def)

lemma fin_vector3_eq [simp]:
  "fin_vector3 a b c = fin_vector3 a' b' c' \<longleftrightarrow> a = a' \<and> b = b' \<and> c = c'"
  by (simp add: fin_vector3_def)

lemma zero_vector3_fin: "zero_vector3 = fin_vector3 0 0 0"
  by (simp add: zero_vector3_def fin_vector3_def)

lemma vector3_finite_iff: "vector3_finite v \<longleftrightarrow> (\<exists>a b c. v = fin_vector3 a b c)"
  by (cases v) (auto simp: vector3_finite_def fin_vector3_def is_finite_iff)

lemma twist_finite_linear: "twist_finite t \<Longrightarrow> vector3_finite (linear t)"
  by (simp add: twist_finite_def twist_components_def vector3_finite_def)

lemma vector3_finite_zero [simp]: "vector3_finite zero_vector3"
  by (simp add: vector3_finite_def)

lemma sent_commands_simps [simp]:
  "sent_commands [] = []"
  "sent_commands (SetCommand xs # es) = xs # sent_commands es"
  "sent_commands (Publish m # es) = sent_commands es"
  by (simp_all add: sent_commands_def)

lemma twist_finite_zero [simp]: "twist_finite zero_twist"
  by (simp add: twist_finite_def twist_components_def)

end
