(* ===== verification/Controller.thy ===== *)
theory Controller
  imports Messages
begin

text \<open>
  The state of a \<open>CartesianVelocityController\<close> object
  (src/franka_ros_controllers/src/cartesian_velocity_controller.cpp) and the two lifecycle
  operations that set it up: \<open>init\<close> (lines 18-64), which binds the hardware and fails
  with one of four logged errors, and \<open>starting\<close> (lines 83-93), which resets the smoothed
  velocity. The subscriber and publisher that \<open>init\<close> creates are not state of the model:
  their traffic is the callback of theory \<open>Target_Buffer\<close> and the \<open>Publish\<close> effects
  of the ticks. The latch \<open>ee_twist_cause_of_contact\<close> is a \<open>std::array<double, 6>\<close>
  member that neither the constructor nor \<open>init\<close> writes; it is \<open>None\<close> until the
  first contact transition stores a value.
\<close>

datatype init_error =
    No_arm_id_param
  | No_velocity_interface
  | Handle_exception
  | No_state_interface

record controller =
  arm_id :: string
  current_velocity :: twist
  target_velocity :: twist
  time_since_last_target_velocity :: ros_time
  was_in_contact :: bool
  ee_twist_cause_of_contact :: "double list option"
  elapsed_time :: ros_duration

definition robot_handle_name :: "string \<Rightarrow> string" where
  "robot_handle_name a = a @ ''_robot''"

text \<open>
  \<open>init\<close> reads the parameter \<open>arm_id\<close>, asks the hardware for the Cartesian velocity
  interface and the handle \<open>arm_id + "_robot"\<close> (whose absence throws the caught
  \<open>HardwareInterfaceException\<close>), then for the state interface. On success the velocity is
  zero, no contact has been seen, and the target's receipt time is the current time; the
  target itself is the default-constructed (zero) message and the elapsed time the default
  (zero) duration.
\<close>

definition init :: "param_server \<Rightarrow> robot_hw \<Rightarrow> ros_time \<Rightarrow> init_error + controller" where
  "init params hw now =
     (case params ''arm_id'' of
        None \<Rightarrow> Inl No_arm_id_param
      | Some a \<Rightarrow>
          (case velocity_cartesian_interface hw of
             None \<Rightarrow> Inl No_velocity_interface
           | Some handles \<Rightarrow>
               if robot_handle_name a \<notin> set handles then Inl Handle_exception
               else if \<not> has_state_interface hw then Inl No_state_interface
               else Inr \<lparr>arm_id = a,
                         current_velocity = zero_twist,
                         target_velocity = zero_twist,
                         time_since_last_target_velocity = now,
                         was_in_contact = False,
                         ee_twist_cause_of_contact = None,
                         elapsed_time = 0\<rparr>))"

definition starting :: "controller \<Rightarrow> controller" where
  "starting c = c\<lparr>elapsed_time := 0, current_velocity := zero_twist\<rparr>"

lemma init_Inr:
  "init params hw now = Inr c \<longleftrightarrow>
     (\<exists>a handles. params ''arm_id'' = Some a \<and> velocity_cartesian_interface hw = Some handles \<and>
        robot_handle_name a \<in> set handles \<and> has_state_interface hw \<and>
        c = \<lparr>arm_id = a, current_velocity = zero_twist, target_velocity = zero_twist,
             time_since_last_target_velocity = now, was_in_contact = False,
             ee_twist_cause_of_contact = None, elapsed_time = 0\<rparr>)"
  by (auto simp: init_def split: option.splits if_splits)

lemma init_Inr_fields:
  assumes "init params hw now = Inr c"
  shows "current_velocity c = zero_twist" "target_velocity c = zero_twist"
    "time_since_last_target_velocity c = now" "\<not> was_in_contact c"
    "ee_twist_cause_of_contact c = None" "Some (arm_id c) = params ''arm_id''"
  using assms by (auto simp: init_Inr)

text \<open>
  C20. The error paths of \<open>init\<close>, in the order the source checks them: it fails with
  \<open>No_arm_id_param\<close> exactly when the parameter is missing; with
  \<open>No_velocity_interface\<close> exactly when the parameter is present and the hardware has no
  Cartesian velocity interface; with \<open>Handle_exception\<close> exactly when the interface
  exists but serves no handle \<open>arm_id + "_robot"\<close>; and with \<open>No_state_interface\<close>
  exactly when all of that succeeded but there is no state interface.
\<close>

theorem init_error_paths:
  "(init params hw now = Inl No_arm_id_param \<longleftrightarrow> params ''arm_id'' = None) \<and>
   (init params hw now = Inl No_velocity_interface \<longleftrightarrow>
      params ''arm_id'' \<noteq> None \<and> velocity_cartesian_interface hw = None) \<and>
   (init params hw now = Inl Handle_exception \<longleftrightarrow>
      (\<exists>a hs. params ''arm_id'' = Some a \<and> velocity_cartesian_interface hw = Some hs \<and>
              robot_handle_name a \<notin> set hs)) \<and>
   (init params hw now = Inl No_state_interface \<longleftrightarrow>
      (\<exists>a hs. params ''arm_id'' = Some a \<and> velocity_cartesian_interface hw = Some hs \<and>
              robot_handle_name a \<in> set hs \<and> \<not> has_state_interface hw))"
  by (auto simp: init_def split: option.splits)

end
