(* ===== verification/Scenarios.thy ===== *)
theory Scenarios
  imports Controller
begin

text \<open>
  Concrete inputs on which the witnesses evaluate the theorems: an arm named \<open>panda\<close>
  whose state handle is \<open>panda_robot\<close>, robot states built from their three flag arrays,
  and controller states with a given smoothed velocity, target, receipt time and contact
  memory. These are test data, not part of the model of the code.
\<close>

definition flags :: "real \<Rightarrow> real \<Rightarrow> real \<Rightarrow> double list" where
  "flags a b c = [Fin a, Fin b, Fin c, Fin 0, Fin 0, Fin 0]"

definition robot_at :: "double list \<Rightarrow> double list \<Rightarrow> double list \<Rightarrow> robot_state" where
  "robot_at cc coll ee = \<lparr>cartesian_contact = cc, cartesian_collision = coll, O_dP_EE_d = ee\<rparr>"

definition panda_handles :: "robot_state \<Rightarrow> state_handles" where
  "panda_handles rs = [''panda_robot'' \<mapsto> rs]"

definition panda_ctrl ::
  "vector3 \<Rightarrow> vector3 \<Rightarrow> ros_time \<Rightarrow> bool \<Rightarrow> double list option \<Rightarrow> controller" where
  "panda_ctrl cv tv t0 was latch =
     \<lparr>arm_id = ''panda'', current_velocity = \<lparr>linear = cv, angular = zero_vector3\<rparr>,
      target_velocity = \<lparr>linear = tv, angular = zero_vector3\<rparr>,
      time_since_last_target_velocity = t0, was_in_contact = was,
      ee_twist_cause_of_contact = latch, elapsed_time = 0\<rparr>"

definition panda_hw :: robot_hw where
  "panda_hw = \<lparr>velocity_cartesian_interface = Some [''panda_robot''], has_state_interface = True\<rparr>"

lemma panda_ctrl_sel [simp]:
  "arm_id (panda_ctrl cv tv t0 was latch) = ''panda''"
  "current_velocity (panda_ctrl cv tv t0 was latch) = \<lparr>linear = cv, angular = zero_vector3\<rparr>"
  "target_velocity (panda_ctrl cv tv t0 was latch) = \<lparr>linear = tv, angular = zero_vector3\<rparr>"
  "time_since_last_target_velocity (panda_ctrl cv tv t0 was latch) = t0"
  "was_in_contact (panda_ctrl cv tv t0 was latch) = was"
  "ee_twist_cause_of_contact (panda_ctrl cv tv t0 was latch) = latch"
  by (simp_all add: panda_ctrl_def)

lemma panda_handles_lookup [simp]:
  "panda_handles rs (robot_handle_name ''panda'') = Some rs"
  by (simp add: panda_handles_def robot_handle_name_def)

lemma robot_at_sel [simp]:
  "cartesian_contact (robot_at cc coll ee) = cc"
  "cartesian_collision (robot_at cc coll ee) = coll"
  "O_dP_EE_d (robot_at cc coll ee) = ee"
  by (simp_all add: robot_at_def)

lemma flags_nth [simp]:
  "flags a b c ! 0 = Fin a" "flags a b c ! Suc 0 = Fin b" "flags a b c ! 2 = Fin c"
  by (simp_all add: flags_def)

end
