(* ===== verification/Shaping.thy ===== *)
theory Shaping
  imports Scenarios
begin

text \<open>
  The velocity shaping core: \<open>update\<close> (lines 96-173), one control tick. Each step of the
  source is a definition of its own, in the source's order, and \<open>update\<close> composes them:
  \<^item> \<open>contact_axes\<close> (105-109): per-axis contact flags \<open>cartesian_contact[i] > 0\<close>;
  \<^item> \<open>check_staleness\<close> (111-114): a target older than 2 s is overwritten with zero;
  \<^item> \<open>latch_update\<close> (118-120): on a false-to-true contact transition the commanded
    end-effector twist \<open>O_dP_EE_d\<close> is frozen into \<open>ee_twist_cause_of_contact\<close>;
  \<^item> \<open>clamp_axis\<close>, \<open>contact_clamp\<close> (122-132): an axis in contact whose target has the
    sign of the latched twist is zeroed; the latch is read only when some axis is in contact,
    and a read of the never-written latch is the error \<open>Uninitialised_latch_read\<close>;
  \<^item> \<open>smooth_axis\<close>, \<open>smooth_linear\<close> (136-145): the first-order filter
    \<open>alpha * v + (1 - alpha) * v_max / 2 * t\<close>;
  \<^item> \<open>derate\<close> (147-149): scaling by \<open>cos(angle)\<close>;
  \<^item> \<open>is_in_collision\<close> (151-159): any collision flag zeroes the command of this tick;
  \<^item> \<open>command_of\<close>, \<open>status_msg\<close> (162-168): the six-component command and the status
    message, which puts the y and z values into \<open>angular.y\<close> and \<open>angular.z\<close>.
  The state handle is looked up by name at every tick; a missing handle throws an exception
  that \<open>update\<close> does not catch, the error \<open>State_handle_missing\<close> here.
\<close>

datatype update_error = State_handle_missing | Uninitialised_latch_read

definition v_max :: double where "v_max = Fin 0.15"
definition angle :: double where "angle = Fin pi / Fin 4"
definition alpha :: double where "alpha = Fin 0.995"

definition contact_axes :: "robot_state \<Rightarrow> bool \<times> bool \<times> bool" where
  "contact_axes rs =
     (0 < cartesian_contact rs ! 0, 0 < cartesian_contact rs ! 1, 0 < cartesian_contact rs ! 2)"

definition check_staleness :: "ros_time \<Rightarrow> controller \<Rightarrow> controller" where
  "check_staleness now c =
     (if now - time_since_last_target_velocity c > 2 then c\<lparr>target_velocity := zero_twist\<rparr>
      else c)"

definition latch_update :: "bool \<Rightarrow> bool \<Rightarrow> robot_state \<Rightarrow> double list option \<Rightarrow> double list option" where
  "latch_update was is_in rs latch = (if \<not> was \<and> is_in then Some (O_dP_EE_d rs) else latch)"

definition is_in_contact :: "bool \<times> bool \<times> bool \<Rightarrow> bool" where
  "is_in_contact axes = (case axes of (cx, cy, cz) \<Rightarrow> cx \<or> cy \<or> cz)"

definition clamp_axis :: "bool \<Rightarrow> double \<Rightarrow> double \<Rightarrow> double" where
  "clamp_axis in_contact t cause = (if in_contact \<and> t * cause > 0 then 0 else t)"

definition contact_clamp ::
  "bool \<times> bool \<times> bool \<Rightarrow> double list option \<Rightarrow> vector3 \<Rightarrow> update_error + vector3" where
  "contact_clamp axes latch v =
     (case axes of (cx, cy, cz) \<Rightarrow>
        if \<not> is_in_contact (cx, cy, cz) then Inr v
        else (case latch of
                None \<Rightarrow> Inl Uninitialised_latch_read
              | Some e \<Rightarrow> Inr \<lparr>vx = clamp_axis cx (vx v) (e ! 0),
                               vy = clamp_axis cy (vy v) (e ! 1),
                               vz = clamp_axis cz (vz v) (e ! 2)\<rparr>))"

definition smooth_axis :: "double \<Rightarrow> double \<Rightarrow> double" where
  "smooth_axis v t = alpha * v + (1 - alpha) * v_max / Fin 2 * t"

definition smooth_linear :: "vector3 \<Rightarrow> vector3 \<Rightarrow> vector3" where
  "smooth_linear v t =
     \<lparr>vx = smooth_axis (vx v) (vx t), vy = smooth_axis (vy v) (vy t), vz = smooth_axis (vz v) (vz t)\<rparr>"

definition derate :: "vector3 \<Rightarrow> vector3" where
  "derate v = \<lparr>vx = dcos angle * vx v, vy = dcos angle * vy v, vz = dcos angle * vz v\<rparr>"

definition is_in_collision :: "robot_state \<Rightarrow> bool" where
  "is_in_collision rs \<longleftrightarrow>
     0 < cartesian_collision rs ! 0 \<or> 0 < cartesian_collision rs ! 1 \<or>
     0 < cartesian_collision rs ! 2"

definition output_of :: "robot_state \<Rightarrow> vector3 \<Rightarrow> vector3" where
  "output_of rs cv = (if is_in_collision rs then zero_vector3 else derate cv)"

definition command_of :: "vector3 \<Rightarrow> double list" where
  "command_of v = [vx v, vy v, vz v, 0, 0, 0]"

definition status_msg :: "vector3 \<Rightarrow> twist" where
  "status_msg v = \<lparr>linear = zero_vector3\<lparr>vx := vx v\<rparr>,
                   angular = zero_vector3\<lparr>vy := vy v, vz := vz v\<rparr>\<rparr>"

definition state_handle :: "state_handles \<Rightarrow> controller \<Rightarrow> robot_state option" where
  "state_handle handles c = handles (robot_handle_name (arm_id c))"

definition update ::
  "state_handles \<Rightarrow> ros_time \<Rightarrow> ros_duration \<Rightarrow> controller \<Rightarrow>
   update_error + controller \<times> effect list" where
  "update handles now period c0 =
     (let c1 = c0\<lparr>elapsed_time := elapsed_time c0 + period\<rparr> in
      case state_handle handles c1 of
        None \<Rightarrow> Inl State_handle_missing
      | Some rs \<Rightarrow>
          (let axes = contact_axes rs;
               c2 = check_staleness now c1;
               latch = latch_update (was_in_contact c2) (is_in_contact axes) rs
                         (ee_twist_cause_of_contact c2)
           in case contact_clamp axes latch (linear (target_velocity c2)) of
                Inl e \<Rightarrow> Inl e
              | Inr t \<Rightarrow>
                  (let cv = smooth_linear (linear (current_velocity c2)) t;
                       v = output_of rs cv
                   in Inr (c2\<lparr>ee_twist_cause_of_contact := latch,
                              current_velocity := (current_velocity c2)\<lparr>linear := cv\<rparr>,
                              was_in_contact := is_in_contact axes\<rparr>,
                           [SetCommand (command_of v), Publish (status_msg v)]))))"

text \<open>
  The latch is readable whenever the last tick saw contact: the invariant under which a
  tick never reads the latch before a contact transition has written it.
\<close>

definition latch_ok :: "controller \<Rightarrow> bool" where
  "latch_ok c \<longleftrightarrow> (was_in_contact c \<longrightarrow> ee_twist_cause_of_contact c \<noteq> None)"

subsection \<open>The result of a tick\<close>

text \<open>
  The latch and the clamped target a tick computes, named so that the functional lemmas
  can state what \<open>update\<close> returns in one equation.
\<close>

definition tick_latch :: "controller \<Rightarrow> robot_state \<Rightarrow> double list option" where
  "tick_latch c rs =
     latch_update (was_in_contact c) (is_in_contact (contact_axes rs)) rs (ee_twist_cause_of_contact c)"

definition tick_state ::
  "ros_time \<Rightarrow> ros_duration \<Rightarrow> controller \<Rightarrow> robot_state \<Rightarrow> vector3 \<Rightarrow> controller" where
  "tick_state now period c rs t =
     (check_staleness now c)\<lparr>elapsed_time := elapsed_time c + period,
        ee_twist_cause_of_contact := tick_latch c rs,
        current_velocity := (current_velocity c)\<lparr>linear := smooth_linear (linear (current_velocity c)) t\<rparr>,
        was_in_contact := is_in_contact (contact_axes rs)\<rparr>"

definition tick_effects :: "robot_state \<Rightarrow> vector3 \<Rightarrow> vector3 \<Rightarrow> effect list" where
  "tick_effects rs cv t =
     [SetCommand (command_of (output_of rs (smooth_linear cv t))),
      Publish (status_msg (output_of rs (smooth_linear cv t)))]"

subsection \<open>Evaluation of the constants and of the filter on finite values\<close>

lemma dcos_angle [simp]: "dcos angle = Fin (sqrt 2 / 2)"
  by (simp add: angle_def cos_45)

lemma smooth_axis_fin [simp]: "smooth_axis (Fin s) (Fin t) = Fin (0.995 * s + 0.000375 * t)"
  by (simp add: smooth_axis_def alpha_def v_max_def)

lemma smooth_linear_fin [simp]:
  "smooth_linear (fin_vector3 a b c) (fin_vector3 d e f) =
   fin_vector3 (0.995 * a + 0.000375 * d) (0.995 * b + 0.000375 * e) (0.995 * c + 0.000375 * f)"
  by (simp add: smooth_linear_def fin_vector3_def)

lemma derate_fin [simp]:
  "derate (fin_vector3 a b c) = fin_vector3 (sqrt 2 / 2 * a) (sqrt 2 / 2 * b) (sqrt 2 / 2 * c)"
  by (simp add: derate_def fin_vector3_def)

lemma clamp_axis_zero [simp]: "clamp_axis b (Fin 0) e = Fin 0"
  by (simp add: clamp_axis_def)

lemma clamp_axis_fin [simp]:
  "clamp_axis b (Fin t) (Fin p) = (if b \<and> 0 < t * p then Fin 0 else Fin t)"
  by (simp add: clamp_axis_def)

lemma clamp_axis_no_contact [simp]: "clamp_axis False t e = t"
  by (simp add: clamp_axis_def)

lemma contact_clamp_no_contact:
  "\<not> is_in_contact axes \<Longrightarrow> contact_clamp axes l v = Inr v"
  by (cases axes) (auto simp: contact_clamp_def)

lemma contact_clamp_Inl_iff:
  "contact_clamp axes l v = Inl e \<longleftrightarrow>
   is_in_contact axes \<and> l = None \<and> e = Uninitialised_latch_read"
  by (cases axes) (auto simp: contact_clamp_def split: option.splits)

lemma contact_clamp_zero:
  "contact_clamp axes l zero_vector3 = Inr t \<Longrightarrow> t = zero_vector3"
  by (cases axes) (auto simp: contact_clamp_def zero_vector3_def split: if_splits option.splits)

lemma smooth_axis_fin_convex:
  "smooth_axis (Fin s) (Fin t) = Fin (0.995 * s + (1 - 0.995) * (0.075 * t))"
  by simp

lemma check_staleness_fields [simp]:
  "arm_id (check_staleness now c) = arm_id c"
  "current_velocity (check_staleness now c) = current_velocity c"
  "was_in_contact (check_staleness now c) = was_in_contact c"
  "ee_twist_cause_of_contact (check_staleness now c) = ee_twist_cause_of_contact c"
  "time_since_last_target_velocity (check_staleness now c) = time_since_last_target_velocity c"
  "elapsed_time (check_staleness now c) = elapsed_time c"
  by (simp_all add: check_staleness_def)

lemma check_staleness_elapsed:
  "check_staleness now (c\<lparr>elapsed_time := d\<rparr>) = (check_staleness now c)\<lparr>elapsed_time := d\<rparr>"
  by (simp add: check_staleness_def)

lemma update_no_handle:
  "state_handle handles c = None \<Longrightarrow>
   update handles now period c = Inl State_handle_missing"
  by (simp add: update_def state_handle_def)

lemma update_Inr_iff:
  "update handles now period c = Inr r \<longleftrightarrow>
   (\<exists>rs t. state_handle handles c = Some rs \<and>
      contact_clamp (contact_axes rs) (tick_latch c rs)
        (linear (target_velocity (check_staleness now c))) = Inr t \<and>
      r = (tick_state now period c rs t, tick_effects rs (linear (current_velocity c)) t))"
  by (auto simp: update_def Let_def tick_latch_def tick_state_def tick_effects_def
      check_staleness_elapsed state_handle_def split: option.splits sum.splits)

lemma update_eq_tick:
  assumes "state_handle handles c = Some rs"
    and "contact_clamp (contact_axes rs) (tick_latch c rs)
           (linear (target_velocity (check_staleness now c))) = Inr t"
  shows "update handles now period c =
           Inr (tick_state now period c rs t, tick_effects rs (linear (current_velocity c)) t)"
  using assms by (simp add: update_Inr_iff)

lemma tick_state_fields [simp]:
  "linear (current_velocity (tick_state now period c rs t)) = smooth_linear (linear (current_velocity c)) t"
  "angular (current_velocity (tick_state now period c rs t)) = angular (current_velocity c)"
  "target_velocity (tick_state now period c rs t) = target_velocity (check_staleness now c)"
  "ee_twist_cause_of_contact (tick_state now period c rs t) = tick_latch c rs"
  "was_in_contact (tick_state now period c rs t) = is_in_contact (contact_axes rs)"
  "arm_id (tick_state now period c rs t) = arm_id c"
  "time_since_last_target_velocity (tick_state now period c rs t) = time_since_last_target_velocity c"
  by (simp_all add: tick_state_def)

lemma update_Inl_iff:
  "update handles now period c = Inl e \<longleftrightarrow>
   (state_handle handles c = None \<and> e = State_handle_missing) \<or>
   (\<exists>rs. state_handle handles c = Some rs \<and>
      contact_clamp (contact_axes rs) (tick_latch c rs)
        (linear (target_velocity (check_staleness now c))) = Inl e)"
  by (auto simp: update_def Let_def tick_latch_def check_staleness_elapsed state_handle_def
      split: option.splits sum.splits)

lemma tick_latch_readable:
  "latch_ok c \<Longrightarrow> is_in_contact (contact_axes rs) \<Longrightarrow> tick_latch c rs \<noteq> None"
  unfolding latch_ok_def tick_latch_def latch_update_def by auto

lemma update_succeeds:
  assumes "state_handle handles c = Some rs" and "latch_ok c"
  shows "\<exists>t. contact_clamp (contact_axes rs) (tick_latch c rs)
                (linear (target_velocity (check_staleness now c))) = Inr t"
proof (cases "contact_clamp (contact_axes rs) (tick_latch c rs)
               (linear (target_velocity (check_staleness now c)))")
  case (Inl e)
  then have "is_in_contact (contact_axes rs)" and "tick_latch c rs = None"
    by (simp_all add: contact_clamp_Inl_iff)
  with tick_latch_readable [OF assms(2)] show ?thesis by blast
next
  case (Inr t)
  then show ?thesis by blast
qed

lemma tick_latch_ok: "latch_ok c \<Longrightarrow> latch_ok (tick_state now period c rs t)"
  by (simp add: latch_ok_def tick_latch_def latch_update_def)

lemma check_staleness_fresh:
  "now - time_since_last_target_velocity c \<le> 2 \<Longrightarrow> check_staleness now c = c"
  by (simp add: check_staleness_def)

lemma check_staleness_stale:
  "now - time_since_last_target_velocity c > 2 \<Longrightarrow>
   target_velocity (check_staleness now c) = zero_twist"
  by (simp add: check_staleness_def)

lemma tick_effects_eq:
  "tick_effects rs cv t =
     [SetCommand (command_of (output_of rs (smooth_linear cv t))),
      Publish (status_msg (output_of rs (smooth_linear cv t)))]"
  by (simp add: tick_effects_def)

lemma command_of_fin:
  "command_of (fin_vector3 a b c) = [Fin a, Fin b, Fin c, Fin 0, Fin 0, Fin 0]"
  by (simp add: command_of_def)

lemma contact_clamp_Some:
  "contact_clamp (cx, cy, cz) (Some e) v =
     Inr \<lparr>vx = clamp_axis cx (vx v) (e ! 0), vy = clamp_axis cy (vy v) (e ! 1),
          vz = clamp_axis cz (vz v) (e ! 2)\<rparr>"
  by (cases v) (auto simp: contact_clamp_def is_in_contact_def)

lemma status_msg_zero [simp]: "status_msg zero_vector3 = zero_twist"
  by (simp add: status_msg_def zero_twist_def zero_vector3_def)

lemma collision_flags_irrelevant:
  "contact_axes (rs\<lparr>cartesian_collision := f\<rparr>) = contact_axes rs"
  "tick_latch c (rs\<lparr>cartesian_collision := f\<rparr>) = tick_latch c rs"
  "tick_state now period c (rs\<lparr>cartesian_collision := f\<rparr>) t = tick_state now period c rs t"
  by (simp_all add: contact_axes_def tick_latch_def latch_update_def tick_state_def)

subsection \<open>Functional behaviour of a tick\<close>

text \<open>
  C1. A tick in free motion (no contact, no collision) with a fresh target moves each
  linear axis of the smoothed velocity to \<open>0.995 * s + 0.000375 * t\<close>
  (\<open>alpha * s + (1 - alpha) * v_max / 2 * t\<close>) and commands that value scaled by
  \<open>cos(pi/4) = sqrt 2 / 2\<close> on the linear axes and zero on the angular ones.
\<close>

theorem update_free_motion:
  assumes "state_handle handles c = Some rs"
    and "\<not> is_in_contact (contact_axes rs)" and "\<not> is_in_collision rs"
    and "now - time_since_last_target_velocity c \<le> 2"
    and "linear (current_velocity c) = fin_vector3 sx sy sz"
    and "linear (target_velocity c) = fin_vector3 tx ty tz"
  shows "\<exists>c'. update handles now period c =
      Inr (c', [SetCommand [Fin (sqrt 2 / 2 * (0.995 * sx + 0.000375 * tx)),
                            Fin (sqrt 2 / 2 * (0.995 * sy + 0.000375 * ty)),
                            Fin (sqrt 2 / 2 * (0.995 * sz + 0.000375 * tz)), Fin 0, Fin 0, Fin 0],
                Publish (status_msg (derate (smooth_linear (linear (current_velocity c))
                                                            (linear (target_velocity c)))))]) \<and>
      linear (current_velocity c') =
        fin_vector3 (0.995 * sx + 0.000375 * tx) (0.995 * sy + 0.000375 * ty) (0.995 * sz + 0.000375 * tz)"
proof -
  have clamp: "contact_clamp (contact_axes rs) (tick_latch c rs)
      (linear (target_velocity (check_staleness now c))) = Inr (linear (target_velocity c))"
    using assms(2,4) by (simp add: contact_clamp_no_contact check_staleness_fresh)
  show ?thesis
    using update_eq_tick [where handles = handles and c = c and rs = rs and now = now and period = period, OF assms(1) clamp] assms(3,5,6)
    by (simp add: tick_effects_eq output_of_def command_of_fin)
qed

theorem update_free_motion_witness:
  "\<exists>c'. update (panda_handles (robot_at (flags 0 0 0) (flags 0 0 0) (flags 0 0 0))) 1 0.001
          (panda_ctrl (fin_vector3 0 0 0) (fin_vector3 1 0 0) 0 False None) =
      Inr (c', [SetCommand [Fin (sqrt 2 / 2 * 0.000375), Fin 0, Fin 0, Fin 0, Fin 0, Fin 0],
                Publish (status_msg (fin_vector3 (sqrt 2 / 2 * 0.000375) 0 0))]) \<and>
      linear (current_velocity c') = fin_vector3 0.000375 0 0"
  using update_free_motion [where handles = "panda_handles (robot_at (flags 0 0 0) (flags 0 0 0) (flags 0 0 0))"
      and rs = "robot_at (flags 0 0 0) (flags 0 0 0) (flags 0 0 0)"
      and c = "panda_ctrl (fin_vector3 0 0 0) (fin_vector3 1 0 0) 0 False None"
      and now = 1 and period = "0.001" and sx = 0 and sy = 0 and sz = 0 and tx = 1 and ty = 0 and tz = 0]
  by (simp add: state_handle_def contact_axes_def is_in_contact_def is_in_collision_def)

text \<open>
  C2. Staleness: when the last target is older than 2 s, the tick overwrites the stored
  target with the zero twist and the effective target is zero, so each linear axis of the
  smoothed velocity decays by the factor 0.995, whatever the contact state.
\<close>

theorem update_stale_target:
  assumes "state_handle handles c = Some rs" and "latch_ok c"
    and "now - time_since_last_target_velocity c > 2"
    and "linear (current_velocity c) = fin_vector3 sx sy sz"
  shows "\<exists>c' es. update handles now period c = Inr (c', es) \<and> target_velocity c' = zero_twist \<and>
      linear (current_velocity c') = fin_vector3 (0.995 * sx) (0.995 * sy) (0.995 * sz)"
proof -
  obtain t where cl: "contact_clamp (contact_axes rs) (tick_latch c rs)
      (linear (target_velocity (check_staleness now c))) = Inr t"
    using update_succeeds [OF assms(1,2)] by blast
  have "t = zero_vector3"
    using cl check_staleness_stale [OF assms(3)] by (simp add: contact_clamp_zero)
  then show ?thesis
    using update_eq_tick [where handles = handles and c = c and rs = rs and now = now
        and period = period, OF assms(1) cl] check_staleness_stale [OF assms(3)] assms(4)
    by (simp add: zero_vector3_fin)
qed

theorem update_stale_target_witness:
  "\<exists>c' es. update (panda_handles (robot_at (flags 0 0 0) (flags 0 0 0) (flags 0 0 0))) 3 0.001
          (panda_ctrl (fin_vector3 1 0 0) (fin_vector3 1 1 1) 0 False None) = Inr (c', es) \<and>
      target_velocity c' = zero_twist \<and> linear (current_velocity c') = fin_vector3 0.995 0 0"
  using update_stale_target [where handles = "panda_handles (robot_at (flags 0 0 0) (flags 0 0 0) (flags 0 0 0))"
      and rs = "robot_at (flags 0 0 0) (flags 0 0 0) (flags 0 0 0)"
      and c = "panda_ctrl (fin_vector3 1 0 0) (fin_vector3 1 1 1) 0 False None"
      and now = 3 and period = "0.001" and sx = 1 and sy = 0 and sz = 0]
  by (simp add: state_handle_def latch_ok_def)

text \<open>
  C3. Contact clamp directionality, on each of the three linear axes: on an axis in
  contact, a fresh target component whose product with the same axis's component of the
  latched twist is positive (a push further in the direction that made the contact) is
  replaced by zero before smoothing; any other target component, a withdrawal or a
  component on an axis not in contact, is smoothed unchanged.
\<close>

theorem update_contact_clamp:
  assumes "state_handle handles c = Some rs" and "contact_axes rs = (cx, cy, cz)"
    and "tick_latch c rs = Some e" and "e ! 0 = Fin px" and "e ! 1 = Fin py" and "e ! 2 = Fin pz"
    and "now - time_since_last_target_velocity c \<le> 2"
    and "linear (target_velocity c) = fin_vector3 tx ty tz"
    and "linear (current_velocity c) = fin_vector3 sx sy sz"
  shows "\<exists>c' es. update handles now period c = Inr (c', es) \<and>
      linear (current_velocity c') =
        fin_vector3 (0.995 * sx + 0.000375 * (if cx \<and> 0 < tx * px then 0 else tx))
                    (0.995 * sy + 0.000375 * (if cy \<and> 0 < ty * py then 0 else ty))
                    (0.995 * sz + 0.000375 * (if cz \<and> 0 < tz * pz then 0 else tz))"
proof -
  let ?t = "fin_vector3 (if cx \<and> 0 < tx * px then 0 else tx) (if cy \<and> 0 < ty * py then 0 else ty)
              (if cz \<and> 0 < tz * pz then 0 else tz)"
  have cl: "contact_clamp (contact_axes rs) (tick_latch c rs)
      (linear (target_velocity (check_staleness now c))) = Inr ?t"
    using assms(2-8) by (simp add: contact_clamp_Some check_staleness_fresh fin_vector3_def)
  have "smooth_linear (fin_vector3 sx sy sz) ?t =
      fin_vector3 (0.995 * sx + 0.000375 * (if cx \<and> 0 < tx * px then 0 else tx))
                  (0.995 * sy + 0.000375 * (if cy \<and> 0 < ty * py then 0 else ty))
                  (0.995 * sz + 0.000375 * (if cz \<and> 0 < tz * pz then 0 else tz))"
    by (simp only: smooth_linear_fin)
  then show ?thesis
    using update_eq_tick [where handles = handles and c = c and rs = rs and now = now
        and period = period, OF assms(1) cl] assms(9)
    by simp
qed

theorem update_contact_clamp_witness:
  "\<exists>c' es. update (panda_handles (robot_at (flags 1 0 1) (flags 0 0 0) (flags 0.05 0 (-0.02)))) 1 0.001 (panda_ctrl (fin_vector3 0.01 0 0) (fin_vector3 1 1 1) 0 False None) = Inr (c', es) \<and>
      linear (current_velocity c') = fin_vector3 (0.995 * 0.01) 0.000375 0.000375"
  using update_contact_clamp [where handles = "panda_handles (robot_at (flags 1 0 1) (flags 0 0 0) (flags 0.05 0 (-0.02)))" and rs = "(robot_at (flags 1 0 1) (flags 0 0 0) (flags 0.05 0 (-0.02)))" and c = "(panda_ctrl (fin_vector3 0.01 0 0) (fin_vector3 1 1 1) 0 False None)"
      and e = "flags 0.05 0 (-0.02)" and cx = True and cy = False and cz = True
      and px = "0.05" and py = 0 and pz = "-0.02" and tx = 1 and ty = 1 and tz = 1
      and sx = "0.01" and sy = 0 and sz = 0 and now = 1 and period = "0.001"]
  by (simp add: state_handle_def tick_latch_def latch_update_def contact_axes_def is_in_contact_def)

text \<open>
  C4. Collision override: when a collision flag is set, the tick commands exactly zero on
  all six components and publishes the zero twist, and the state it leaves is the state the
  same tick leaves without the collision flags: the override does not touch the smoothed
  velocity or the contact memory.
\<close>

theorem update_collision_override:
  assumes "state_handle handles c = Some rs" and "latch_ok c"
    and "is_in_collision rs"
  shows "\<exists>c'. update handles now period c =
            Inr (c', [SetCommand [Fin 0, Fin 0, Fin 0, Fin 0, Fin 0, Fin 0], Publish zero_twist]) \<and>
         (\<exists>es. update (handles(robot_handle_name (arm_id c) \<mapsto> rs\<lparr>cartesian_collision := f\<rparr>))
                  now period c = Inr (c', es))"
proof -
  obtain t where cl: "contact_clamp (contact_axes rs) (tick_latch c rs)
      (linear (target_velocity (check_staleness now c))) = Inr t"
    using update_succeeds [OF assms(1,2)] by blast
  have h': "state_handle (handles(robot_handle_name (arm_id c) \<mapsto> rs\<lparr>cartesian_collision := f\<rparr>)) c =
      Some (rs\<lparr>cartesian_collision := f\<rparr>)"
    by (simp add: state_handle_def)
  have cl': "contact_clamp (contact_axes (rs\<lparr>cartesian_collision := f\<rparr>))
      (tick_latch c (rs\<lparr>cartesian_collision := f\<rparr>))
      (linear (target_velocity (check_staleness now c))) = Inr t"
    using cl by (simp add: collision_flags_irrelevant)
  show ?thesis
    using update_eq_tick [where handles = handles and c = c and rs = rs and now = now
        and period = period, OF assms(1) cl]
      update_eq_tick [OF h' cl', of period] assms(3)
    by (simp add: tick_effects_eq output_of_def command_of_def collision_flags_irrelevant)
qed

theorem update_collision_override_witness:
  "\<exists>c'. update (panda_handles (robot_at (flags 0 0 0) (flags 1 0 0) (flags 0 0 0))) 1 0.001
          (panda_ctrl (fin_vector3 0.05 0 0) (fin_vector3 1 0 0) 0 False None) =
        Inr (c', [SetCommand [Fin 0, Fin 0, Fin 0, Fin 0, Fin 0, Fin 0], Publish zero_twist]) \<and>
      (\<exists>es. update ((panda_handles (robot_at (flags 0 0 0) (flags 1 0 0) (flags 0 0 0)))
                 (robot_handle_name ''panda'' \<mapsto> robot_at (flags 0 0 0) (flags 0 0 0) (flags 0 0 0)))
               1 0.001 (panda_ctrl (fin_vector3 0.05 0 0) (fin_vector3 1 0 0) 0 False None) = Inr (c', es))"
  using update_collision_override [where handles = "panda_handles (robot_at (flags 0 0 0) (flags 1 0 0) (flags 0 0 0))"
      and rs = "robot_at (flags 0 0 0) (flags 1 0 0) (flags 0 0 0)"
      and c = "panda_ctrl (fin_vector3 0.05 0 0) (fin_vector3 1 0 0) 0 False None"
      and f = "flags 0 0 0" and now = 1 and period = "0.001"]
  by (simp add: state_handle_def latch_ok_def is_in_collision_def robot_at_def)

end
