(* ===== verification/Abstract_Tick.thy ===== *)
theory Abstract_Tick
  imports Shaping
begin

text \<open>
  The per-tick algorithm of the specification (steps 2-9 of its section 4.2) as a function
  on real vectors, and its refinement by \<open>update\<close>: on finite values the code's state
  after a tick is the image of the abstract state after the abstract tick, and the
  command it sends is the abstract command. The abstract state keeps what the
  specification calls the SmoothedVelocity, the ContactLatch and the previous contact
  state; step 1 (the staleness rule) is the input \<open>target\<close>, whose agreement with the
  specification's effective target is the refinement lemma of theory \<open>Lifecycle\<close>.
\<close>

type_synonym rvec = "real \<times> real \<times> real"

record core_spec =
  smoothed :: rvec
  contact_latch :: "rvec option"
  prev_contact :: bool

definition spec_alpha :: real where "spec_alpha = 0.995"
definition spec_v_max :: real where "spec_v_max = 0.15"
definition spec_angle :: real where "spec_angle = pi / 4"

fun spec_clamp :: "bool \<times> bool \<times> bool \<Rightarrow> rvec option \<Rightarrow> rvec \<Rightarrow> rvec" where
  "spec_clamp _ None t = t"
| "spec_clamp (cx, cy, cz) (Some (ex, ey, ez)) (tx, ty, tz) =
     (if cx \<and> tx * ex > 0 then 0 else tx,
      if cy \<and> ty * ey > 0 then 0 else ty,
      if cz \<and> tz * ez > 0 then 0 else tz)"

fun spec_smooth :: "rvec \<Rightarrow> rvec \<Rightarrow> rvec" where
  "spec_smooth (sx, sy, sz) (tx, ty, tz) =
     (spec_alpha * sx + (1 - spec_alpha) * (spec_v_max / 2) * tx,
      spec_alpha * sy + (1 - spec_alpha) * (spec_v_max / 2) * ty,
      spec_alpha * sz + (1 - spec_alpha) * (spec_v_max / 2) * tz)"

fun spec_derate :: "rvec \<Rightarrow> rvec" where
  "spec_derate (x, y, z) = (cos spec_angle * x, cos spec_angle * y, cos spec_angle * z)"

definition spec_tick ::
  "core_spec \<Rightarrow> rvec \<Rightarrow> bool \<times> bool \<times> bool \<Rightarrow> bool \<Rightarrow> rvec \<Rightarrow> core_spec \<times> rvec" where
  "spec_tick s target axes collision ee =
     (let in_contact = is_in_contact axes;
          l = (if \<not> prev_contact s \<and> in_contact then Some ee else contact_latch s);
          sm = spec_smooth (smoothed s) (spec_clamp axes l target)
      in (\<lparr>smoothed = sm, contact_latch = l, prev_contact = in_contact\<rparr>,
          if collision then (0, 0, 0) else spec_derate sm))"

subsection \<open>Abstraction of the code's values\<close>

fun real_of :: "double \<Rightarrow> real" where
  "real_of (Fin r) = r"
| "real_of _ = 0"

definition vec_abs :: "vector3 \<Rightarrow> rvec" where
  "vec_abs v = (real_of (vx v), real_of (vy v), real_of (vz v))"

definition arr_abs :: "double list \<Rightarrow> rvec" where
  "arr_abs e = (real_of (e ! 0), real_of (e ! 1), real_of (e ! 2))"

definition fin_of :: "rvec \<Rightarrow> vector3" where
  "fin_of v = (case v of (a, b, c) \<Rightarrow> fin_vector3 a b c)"

definition arr_finite :: "double list \<Rightarrow> bool" where
  "arr_finite e \<longleftrightarrow> is_finite (e ! 0) \<and> is_finite (e ! 1) \<and> is_finite (e ! 2)"

definition abs_ctrl :: "controller \<Rightarrow> core_spec" where
  "abs_ctrl c =
     \<lparr>smoothed = vec_abs (linear (current_velocity c)),
      contact_latch = map_option arr_abs (ee_twist_cause_of_contact c),
      prev_contact = was_in_contact c\<rparr>"

definition ctrl_finite :: "controller \<Rightarrow> bool" where
  "ctrl_finite c \<longleftrightarrow>
     vector3_finite (linear (current_velocity c)) \<and> vector3_finite (linear (target_velocity c)) \<and>
     (case ee_twist_cause_of_contact c of None \<Rightarrow> True | Some e \<Rightarrow> arr_finite e)"

subsection \<open>The code's operations on finite values are the abstract ones\<close>

lemma fin_of_vec_abs: "vector3_finite v \<Longrightarrow> fin_of (vec_abs v) = v"
  by (auto simp: vector3_finite_iff vec_abs_def fin_of_def)

lemma vec_abs_fin_of [simp]: "vec_abs (fin_of v) = v"
  by (cases v) (simp add: vec_abs_def fin_of_def)

lemma vector3_finite_fin_of [simp]: "vector3_finite (fin_of v)"
  by (cases v) (auto simp: fin_of_def vector3_finite_iff)

lemma fin_of_zero: "fin_of (0, 0, 0) = zero_vector3"
  by (simp add: fin_of_def zero_vector3_fin)

lemma arr_finite_nth: "arr_finite e \<Longrightarrow> e ! 0 = Fin (fst (arr_abs e)) \<and>
    e ! 1 = Fin (fst (snd (arr_abs e))) \<and> e ! 2 = Fin (snd (snd (arr_abs e)))"
  by (auto simp: arr_finite_def arr_abs_def is_finite_iff)

lemma smooth_linear_abs: "smooth_linear (fin_of s) (fin_of t) = fin_of (spec_smooth s t)"
  by (cases s, cases t) (simp add: fin_of_def spec_alpha_def spec_v_max_def)

lemma derate_abs: "derate (fin_of v) = fin_of (spec_derate v)"
  by (cases v) (simp add: fin_of_def spec_angle_def cos_45)

lemma output_of_abs:
  "output_of rs (fin_of v) =
     fin_of (if is_in_collision rs then (0, 0, 0) else spec_derate v)"
  by (simp add: output_of_def derate_abs fin_of_zero)

lemma contact_clamp_abs:
  assumes "is_in_contact axes \<Longrightarrow> l \<noteq> None"
    and "case l of None \<Rightarrow> True | Some e \<Rightarrow> arr_finite e"
  shows "contact_clamp axes l (fin_of t) = Inr (fin_of (spec_clamp axes (map_option arr_abs l) t))"
proof (cases l)
  case None
  with assms(1) have "\<not> is_in_contact axes" by blast
  with None show ?thesis by (simp add: contact_clamp_no_contact)
next
  case (Some e)
  obtain cx cy cz where axes: "axes = (cx, cy, cz)" by (cases axes) blast
  obtain tx ty tz where t: "t = (tx, ty, tz)" by (cases t) blast
  obtain ex ey ez where "arr_abs e = (ex, ey, ez)" by (cases "arr_abs e") blast
  with Some assms(2) arr_finite_nth [of e] have "e ! 0 = Fin ex" "e ! 1 = Fin ey" "e ! 2 = Fin ez"
    by simp_all
  with Some axes t \<open>arr_abs e = (ex, ey, ez)\<close> show ?thesis
    by (simp add: contact_clamp_Some fin_of_def fin_vector3_def)
qed


lemma tick_latch_abs:
  "map_option arr_abs (tick_latch c rs) =
     (if \<not> was_in_contact c \<and> is_in_contact (contact_axes rs) then Some (arr_abs (O_dP_EE_d rs))
      else map_option arr_abs (ee_twist_cause_of_contact c))"
  by (simp add: tick_latch_def latch_update_def)

lemma tick_latch_finite:
  "ctrl_finite c \<Longrightarrow> arr_finite (O_dP_EE_d rs) \<Longrightarrow>
   (case tick_latch c rs of None \<Rightarrow> True | Some e \<Rightarrow> arr_finite e)"
  by (simp add: tick_latch_def latch_update_def ctrl_finite_def)

lemma check_staleness_finite:
  "ctrl_finite c \<Longrightarrow> ctrl_finite (check_staleness now c)"
  by (simp add: ctrl_finite_def check_staleness_def)

lemma update_abs_step:
  fixes now :: ros_time and p :: ros_duration
  assumes "state_handle h c = Some rs" "latch_ok c" "ctrl_finite c" "arr_finite (O_dP_EE_d rs)"
  defines "st \<equiv> spec_tick (abs_ctrl c) (vec_abs (linear (target_velocity (check_staleness now c))))
                   (contact_axes rs) (is_in_collision rs) (arr_abs (O_dP_EE_d rs))"
  shows "\<exists>c' es. update h now p c = Inr (c', es) \<and> abs_ctrl c' = fst st \<and>
           es = [SetCommand (command_of (fin_of (snd st))), Publish (status_msg (fin_of (snd st)))] \<and>
           ctrl_finite c' \<and> latch_ok c'"
proof -
  let ?T = "linear (target_velocity (check_staleness now c))"
  let ?cv = "linear (current_velocity c)"
  let ?L = "map_option arr_abs (tick_latch c rs)"
  let ?t = "spec_clamp (contact_axes rs) ?L (vec_abs ?T)"
  have T: "fin_of (vec_abs ?T) = ?T"
    using check_staleness_finite [OF assms(3)] by (simp add: ctrl_finite_def fin_of_vec_abs)
  have cv: "fin_of (vec_abs ?cv) = ?cv"
    using assms(3) by (simp add: ctrl_finite_def fin_of_vec_abs)
  have "contact_clamp (contact_axes rs) (tick_latch c rs) (fin_of (vec_abs ?T)) = Inr (fin_of ?t)"
    using tick_latch_readable [OF assms(2)] tick_latch_finite [OF assms(3,4)]
    by (intro contact_clamp_abs) blast+
  then have upd: "update h now p c = Inr (tick_state now p c rs (fin_of ?t),
                                         tick_effects rs ?cv (fin_of ?t))"
    using update_eq_tick [OF assms(1)] T by simp
  have sm: "smooth_linear ?cv (fin_of ?t) = fin_of (spec_smooth (vec_abs ?cv) ?t)"
    by (metis cv smooth_linear_abs)
  let ?sm = "spec_smooth (vec_abs ?cv) ?t"
  have L: "?L = (if \<not> prev_contact (abs_ctrl c) \<and> is_in_contact (contact_axes rs)
                 then Some (arr_abs (O_dP_EE_d rs)) else contact_latch (abs_ctrl c))"
    by (simp add: tick_latch_abs abs_ctrl_def)
  have st: "st = (\<lparr>smoothed = ?sm, contact_latch = ?L, prev_contact = is_in_contact (contact_axes rs)\<rparr>,
                  if is_in_collision rs then (0, 0, 0) else spec_derate ?sm)"
    unfolding st_def spec_tick_def Let_def L by (simp add: abs_ctrl_def)
  have "abs_ctrl (tick_state now p c rs (fin_of ?t)) = fst st"
    by (simp add: st abs_ctrl_def sm)
  moreover have "tick_effects rs ?cv (fin_of ?t) =
      [SetCommand (command_of (fin_of (snd st))), Publish (status_msg (fin_of (snd st)))]"
    by (simp add: st sm tick_effects_def output_of_abs)
  moreover have "ctrl_finite (tick_state now p c rs (fin_of ?t))"
    using check_staleness_finite [OF assms(3)] tick_latch_finite [OF assms(3,4)]
    by (simp add: ctrl_finite_def sm)
  moreover have "latch_ok (tick_state now p c rs (fin_of ?t))"
    using tick_latch_ok [OF assms(2)] .
  ultimately show ?thesis using upd by blast
qed


text \<open>
  C22. Refinement of the tick: from a state with finite values whose latch is readable
  when the last tick saw contact, with a state handle whose end-effector velocity is
  finite, \<open>update\<close> succeeds; the abstraction of its new state is the state after the
  specification's tick on the abstraction of the old state, with the target that step 1
  leaves; it sends that tick's command; and the new state again has finite values and a
  readable latch.
\<close>

theorem update_refines_spec:
  fixes now :: ros_time and p :: ros_duration
  assumes "state_handle h c = Some rs" "latch_ok c" "ctrl_finite c" "arr_finite (O_dP_EE_d rs)"
  defines "st \<equiv> spec_tick (abs_ctrl c) (vec_abs (linear (target_velocity (check_staleness now c))))
                   (contact_axes rs) (is_in_collision rs) (arr_abs (O_dP_EE_d rs))"
  shows "\<exists>c' es. update h now p c = Inr (c', es) \<and> abs_ctrl c' = fst st \<and>
           es = [SetCommand (command_of (fin_of (snd st))), Publish (status_msg (fin_of (snd st)))] \<and>
           ctrl_finite c' \<and> latch_ok c'"
  using update_abs_step [OF assms(1-4), of now p] unfolding st_def .

theorem update_refines_spec_witness:
  "\<exists>c' es. update (panda_handles (robot_at (flags 1 0 0) (flags 0 0 0) (flags 0.2 0 0))) 1 0.001 (panda_ctrl (fin_vector3 0.1 0 0) (fin_vector3 1 0 0) 0 False None) = Inr (c', es) \<and>
     abs_ctrl c' = fst (spec_tick (abs_ctrl (panda_ctrl (fin_vector3 0.1 0 0) (fin_vector3 1 0 0) 0 False None))
       (vec_abs (linear (target_velocity (check_staleness 1 (panda_ctrl (fin_vector3 0.1 0 0) (fin_vector3 1 0 0) 0 False None)))))
       (contact_axes (robot_at (flags 1 0 0) (flags 0 0 0) (flags 0.2 0 0))) (is_in_collision (robot_at (flags 1 0 0) (flags 0 0 0) (flags 0.2 0 0))) (arr_abs (O_dP_EE_d (robot_at (flags 1 0 0) (flags 0 0 0) (flags 0.2 0 0))))) \<and>
     es = [SetCommand (command_of (fin_of (snd (spec_tick (abs_ctrl (panda_ctrl (fin_vector3 0.1 0 0) (fin_vector3 1 0 0) 0 False None))
             (vec_abs (linear (target_velocity (check_staleness 1 (panda_ctrl (fin_vector3 0.1 0 0) (fin_vector3 1 0 0) 0 False None)))))
             (contact_axes (robot_at (flags 1 0 0) (flags 0 0 0) (flags 0.2 0 0))) (is_in_collision (robot_at (flags 1 0 0) (flags 0 0 0) (flags 0.2 0 0))) (arr_abs (O_dP_EE_d (robot_at (flags 1 0 0) (flags 0 0 0) (flags 0.2 0 0)))))))),
           Publish (status_msg (fin_of (snd (spec_tick (abs_ctrl (panda_ctrl (fin_vector3 0.1 0 0) (fin_vector3 1 0 0) 0 False None))
             (vec_abs (linear (target_velocity (check_staleness 1 (panda_ctrl (fin_vector3 0.1 0 0) (fin_vector3 1 0 0) 0 False None)))))
             (contact_axes (robot_at (flags 1 0 0) (flags 0 0 0) (flags 0.2 0 0))) (is_in_collision (robot_at (flags 1 0 0) (flags 0 0 0) (flags 0.2 0 0))) (arr_abs (O_dP_EE_d (robot_at (flags 1 0 0) (flags 0 0 0) (flags 0.2 0 0))))))))] \<and>
     ctrl_finite c' \<and> latch_ok c'"
  using update_refines_spec [where h = "panda_handles (robot_at (flags 1 0 0) (flags 0 0 0) (flags 0.2 0 0))" and c = "(panda_ctrl (fin_vector3 0.1 0 0) (fin_vector3 1 0 0) 0 False None)" and rs = "(robot_at (flags 1 0 0) (flags 0 0 0) (flags 0.2 0 0))"
      and now = 1 and p = "0.001"]
  by (simp add: state_handle_def latch_ok_def ctrl_finite_def arr_finite_def vector3_finite_def)

end
