(* ===== verification/Target_Buffer.thy ===== *)
theory Target_Buffer
  imports Controller
begin

text \<open>
  The target command buffer: \<open>target_velocity_callback\<close> (lines 66-81), the subscriber
  callback of \<open>/franka_control/target_velocity\<close>. It runs in two parts, which the
  lifecycle model lets a tick separate, since the callback runs on the subscriber's thread
  while \<open>update\<close> runs on the control thread and nothing locks the shared member:
  \<open>callback_store\<close> (line 67) copies the message into \<open>target_velocity\<close>;
  \<open>callback_finish\<close> (lines 69-80) checks the six components of that member with
  \<open>x != x\<close>, the C++ test for NaN, calls \<open>exit(-1)\<close> on a NaN (the fatal value
  \<open>Exit (-1)\<close>), and otherwise stamps the receipt time. The test does not reject the
  infinities.
\<close>

datatype fatal = Exit int

definition has_nan :: "twist \<Rightarrow> bool" where
  "has_nan m \<longleftrightarrow>
     dneq (vx (linear m)) (vx (linear m)) \<or> dneq (vy (linear m)) (vy (linear m)) \<or>
     dneq (vz (linear m)) (vz (linear m)) \<or> dneq (vx (angular m)) (vx (angular m)) \<or>
     dneq (vy (angular m)) (vy (angular m)) \<or> dneq (vz (angular m)) (vz (angular m))"

definition callback_store :: "twist \<Rightarrow> controller \<Rightarrow> controller" where
  "callback_store msg c = c\<lparr>target_velocity := msg\<rparr>"

definition callback_finish :: "ros_time \<Rightarrow> controller \<Rightarrow> fatal + controller" where
  "callback_finish now c =
     (if has_nan (target_velocity c) then Inl (Exit (-1))
      else Inr (c\<lparr>time_since_last_target_velocity := now\<rparr>))"

definition target_velocity_callback ::
  "twist \<Rightarrow> ros_time \<Rightarrow> controller \<Rightarrow> fatal + controller" where
  "target_velocity_callback msg now c = callback_finish now (callback_store msg c)"

lemma has_nan_iff: "has_nan m \<longleftrightarrow> NaN \<in> set (twist_components m)"
  by (auto simp: has_nan_def twist_components_def)

lemma twist_finite_no_nan: "twist_finite m \<Longrightarrow> \<not> has_nan m"
  by (auto simp: has_nan_iff twist_finite_def list_all_iff)

lemma callback_finish_Inr:
  "callback_finish now c = Inr c' \<longleftrightarrow>
     \<not> has_nan (target_velocity c) \<and> c' = c\<lparr>time_since_last_target_velocity := now\<rparr>"
  by (auto simp: callback_finish_def)

lemma callback_Inr:
  "target_velocity_callback msg now c = Inr c' \<longleftrightarrow>
     \<not> has_nan msg \<and> c' = c\<lparr>target_velocity := msg, time_since_last_target_velocity := now\<rparr>"
  by (auto simp: target_velocity_callback_def callback_finish_def callback_store_def)

end
