(* ===== verification/Stopping.thy ===== *)
theory Stopping
  imports Shaping
begin

text \<open>
  The shutdown ramp-down: \<open>stopping\<close> (lines 176-202). It scales the smoothed linear
  velocity by \<open>alpha\<close> and commands the result directly, without the \<open>cos(angle)\<close>
  de-rate of \<open>update\<close>, then publishes the same values in the mixed status message.
  The source comment forbids commanding zero here; the ROS controller manager calls
  \<open>stopping\<close> once, and a host that calls it repeatedly (the ramp-down of the spec) runs
  \<open>ramp_down n\<close>, the \<open>n\<close>-fold call.
\<close>

definition stopping :: "controller \<Rightarrow> controller \<times> effect list" where
  "stopping c =
     (let cv = linear (current_velocity c);
          cv' = \<lparr>vx = alpha * vx cv, vy = alpha * vy cv, vz = alpha * vz cv\<rparr>
      in (c\<lparr>current_velocity := (current_velocity c)\<lparr>linear := cv'\<rparr>\<rparr>,
          [SetCommand (command_of cv'), Publish (status_msg cv')]))"

primrec ramp_down :: "nat \<Rightarrow> controller \<Rightarrow> controller" where
  "ramp_down 0 c = c"
| "ramp_down (Suc n) c = fst (stopping (ramp_down n c))"

lemma stopping_fin:
  "linear (current_velocity c) = fin_vector3 sx sy sz \<Longrightarrow>
   stopping c =
     (c\<lparr>current_velocity := (current_velocity c)\<lparr>linear := fin_vector3 (0.995 * sx) (0.995 * sy) (0.995 * sz)\<rparr>\<rparr>,
      [SetCommand [Fin (0.995 * sx), Fin (0.995 * sy), Fin (0.995 * sz), Fin 0, Fin 0, Fin 0],
       Publish (status_msg (fin_vector3 (0.995 * sx) (0.995 * sy) (0.995 * sz)))])"
  by (simp add: stopping_def Let_def alpha_def command_of_def fin_vector3_def)

lemma stopping_fields [simp]:
  "arm_id (fst (stopping c)) = arm_id c"
  "target_velocity (fst (stopping c)) = target_velocity c"
  "time_since_last_target_velocity (fst (stopping c)) = time_since_last_target_velocity c"
  "was_in_contact (fst (stopping c)) = was_in_contact c"
  "ee_twist_cause_of_contact (fst (stopping c)) = ee_twist_cause_of_contact c"
  by (simp_all add: stopping_def Let_def)

lemma sqrt2_half_bounds: "0.7 < sqrt 2 / (2::real)" "sqrt 2 / 2 < (0.715::real)"
proof -
  have "1.4 < sqrt (2::real)" by (rule real_less_rsqrt) (simp add: power2_eq_square)
  then show "0.7 < sqrt 2 / (2::real)" by simp
  have "sqrt (2::real) < 1.43" by (rule real_less_lsqrt) (simp_all add: power2_eq_square)
  then show "sqrt 2 / 2 < (0.715::real)" by simp
qed

text \<open>
  C5. A call of \<open>stopping\<close> scales each linear axis of the smoothed velocity by 0.995 and
  commands the scaled values as they are, without the \<open>cos(pi/4)\<close> de-rate of a tick, with
  zero on the angular axes.
\<close>

theorem stopping_decay:
  assumes "linear (current_velocity c) = fin_vector3 sx sy sz"
  shows "linear (current_velocity (fst (stopping c))) = fin_vector3 (0.995 * sx) (0.995 * sy) (0.995 * sz) \<and>
         snd (stopping c) =
           [SetCommand [Fin (0.995 * sx), Fin (0.995 * sy), Fin (0.995 * sz), Fin 0, Fin 0, Fin 0],
            Publish (status_msg (fin_vector3 (0.995 * sx) (0.995 * sy) (0.995 * sz)))]"
  using stopping_fin [OF assms] by simp

theorem stopping_decay_witness:
  "linear (current_velocity (fst (stopping (panda_ctrl (fin_vector3 0.1 0 0) zero_vector3 0 False None)))) =
     fin_vector3 (0.995 * 0.1) 0 0 \<and>
   snd (stopping (panda_ctrl (fin_vector3 0.1 0 0) zero_vector3 0 False None)) =
     [SetCommand [Fin (0.995 * 0.1), Fin 0, Fin 0, Fin 0, Fin 0, Fin 0],
      Publish (status_msg (fin_vector3 (0.995 * 0.1) 0 0))]"
  using stopping_decay [where c = "panda_ctrl (fin_vector3 0.1 0 0) zero_vector3 0 False None"
      and sx = "0.1" and sy = 0 and sz = 0]
  by simp

lemma ramp_down_fin:
  "linear (current_velocity c) = fin_vector3 sx sy sz \<Longrightarrow>
   linear (current_velocity (ramp_down n c)) =
     fin_vector3 (0.995 ^ n * sx) (0.995 ^ n * sy) (0.995 ^ n * sz)"
  by (induction n) (simp_all add: stopping_fin mult.assoc)

text \<open>
  C6. Ramp-down: after \<open>n\<close> calls of \<open>stopping\<close> each of the three linear axes of the
  smoothed velocity is its start value times \<open>0.995 ^ n\<close>, and the next call commands
  and publishes the three axes scaled by \<open>0.995 ^ (n + 1)\<close>, each from its own axis, with
  zero on the angular axes.
\<close>

theorem ramp_down_geometric:
  assumes "linear (current_velocity c) = fin_vector3 sx sy sz"
  shows "linear (current_velocity (ramp_down n c)) =
           fin_vector3 (0.995 ^ n * sx) (0.995 ^ n * sy) (0.995 ^ n * sz) \<and>
         snd (stopping (ramp_down n c)) =
           [SetCommand [Fin (0.995 ^ Suc n * sx), Fin (0.995 ^ Suc n * sy), Fin (0.995 ^ Suc n * sz),
                        Fin 0, Fin 0, Fin 0],
            Publish (status_msg (fin_vector3 (0.995 ^ Suc n * sx) (0.995 ^ Suc n * sy)
                                             (0.995 ^ Suc n * sz)))]"
  using ramp_down_fin [OF assms, of n] stopping_fin [OF ramp_down_fin [OF assms, of n]]
  by (simp add: mult.assoc)

theorem ramp_down_geometric_witness:
  "linear (current_velocity (ramp_down 2 (panda_ctrl (fin_vector3 0.1 (-0.2) 0.3) zero_vector3 0 False None))) =
     fin_vector3 (0.995 ^ 2 * 0.1) (0.995 ^ 2 * (-0.2)) (0.995 ^ 2 * 0.3) \<and>
   snd (stopping (ramp_down 2 (panda_ctrl (fin_vector3 0.1 (-0.2) 0.3) zero_vector3 0 False None))) =
     [SetCommand [Fin (0.995 ^ Suc 2 * 0.1), Fin (0.995 ^ Suc 2 * (-0.2)), Fin (0.995 ^ Suc 2 * 0.3),
                  Fin 0, Fin 0, Fin 0],
      Publish (status_msg (fin_vector3 (0.995 ^ Suc 2 * 0.1) (0.995 ^ Suc 2 * (-0.2))
                                       (0.995 ^ Suc 2 * 0.3)))]"
  using ramp_down_geometric [where c = "(panda_ctrl (fin_vector3 0.1 (-0.2) 0.3) zero_vector3 0 False None)" and sx = "0.1" and sy = "-0.2" and sz = "0.3" and n = 2]
  by (simp only: panda_ctrl_sel twist.select_convs fin_vector3_def)

end
