(* ===== verification/Lifecycle.thy ===== *)
theory Lifecycle
  imports Target_Buffer Stopping
begin

text \<open>
  The controller as the ROS controller manager and the subscriber thread drive it. After
  a successful \<open>init\<close> the controller is \<open>Initialized\<close>; \<open>starting\<close> makes it
  \<open>Running\<close> (also again after a stop), \<open>update\<close> runs only while \<open>Running\<close>,
  \<open>stopping\<close> moves it to \<open>Stopped\<close> (a host may call it again there), and the target
  callback may arrive in every phase, since the subscriber lives from \<open>init\<close> on. The
  callback runs on the subscriber's thread and the ticks on the control thread, with no
  lock on the shared target: the model splits the callback into its store (event
  \<open>Target_msg\<close>, line 67) and its check and time stamp (event \<open>Callback_done\<close>, lines
  69-80), between which ticks, starts and stops may run; callbacks themselves are
  serialised (one spinner, queue of one). A NaN found by the check, or an exception
  escaping \<open>update\<close>, ends the process: phase \<open>Exited\<close>, from which no event is
  possible. Events carry the ROS time at which they happen; the step refuses an event
  earlier than the latest time seen (\<open>clock\<close>), so runs have monotone time. Ghost fields
  record what the specification talks about and the code does not keep on its own: the
  last accepted message and the time at which it was accepted (\<open>last_msg\<close>,
  \<open>last_msg_time\<close>, written by the step, not by the code), the message whose callback is
  in flight (\<open>pending\<close>), whether a tick has ever run while a callback was in flight
  (\<open>tick_in_callback\<close>), and the effects emitted so far, in order.
\<close>

datatype phase = Initialized | Running | Stopped | Exited

datatype event =
    Start
  | Tick state_handles ros_time ros_duration
  | Stop
  | Target_msg twist ros_time
  | Callback_done ros_time

record sys =
  phase :: phase
  ctrl :: controller
  clock :: ros_time
  last_msg :: twist
  last_msg_time :: ros_time
  pending :: "twist option"
  tick_in_callback :: bool
  outputs :: "effect list"

definition initial_sys :: "controller \<Rightarrow> ros_time \<Rightarrow> sys" where
  "initial_sys c t =
     \<lparr>phase = Initialized, ctrl = c, clock = t, last_msg = zero_twist, last_msg_time = t,
      pending = None, tick_in_callback = False, outputs = []\<rparr>"

definition sys_step :: "sys \<Rightarrow> event \<Rightarrow> sys option" where
  "sys_step s e =
     (if phase s = Exited then None else
      case e of
        Start \<Rightarrow>
          if phase s = Running then None
          else Some (s\<lparr>phase := Running, ctrl := starting (ctrl s)\<rparr>)
      | Tick h now p \<Rightarrow>
          if phase s \<noteq> Running \<or> now < clock s then None
          else (case update h now p (ctrl s) of
                  Inl _ \<Rightarrow> Some (s\<lparr>phase := Exited, clock := now,
                                 tick_in_callback := tick_in_callback s \<or> pending s \<noteq> None\<rparr>)
                | Inr (c', es) \<Rightarrow>
                    Some (s\<lparr>ctrl := c', clock := now, outputs := outputs s @ es,
                            tick_in_callback := tick_in_callback s \<or> pending s \<noteq> None\<rparr>))
      | Stop \<Rightarrow>
          if phase s = Initialized then None
          else Some (s\<lparr>phase := Stopped, ctrl := fst (stopping (ctrl s)),
                       outputs := outputs s @ snd (stopping (ctrl s))\<rparr>)
      | Target_msg m now \<Rightarrow>
          if now < clock s \<or> pending s \<noteq> None then None
          else Some (s\<lparr>ctrl := callback_store m (ctrl s), clock := now, pending := Some m\<rparr>)
      | Callback_done now \<Rightarrow>
          (case pending s of
             None \<Rightarrow> None
           | Some m \<Rightarrow>
               if now < clock s then None
               else (case callback_finish now (ctrl s) of
                       Inl _ \<Rightarrow> Some (s\<lparr>phase := Exited, clock := now, pending := None\<rparr>)
                     | Inr c' \<Rightarrow> Some (s\<lparr>ctrl := c', clock := now, last_msg := m,
                                          last_msg_time := now, pending := None\<rparr>))))"

text \<open>
  The reachable states, for an environment that only produces events satisfying \<open>P\<close>
  (\<open>\<lambda>_. True\<close> for an arbitrary environment).
\<close>

inductive reach :: "(event \<Rightarrow> bool) \<Rightarrow> sys \<Rightarrow> bool" for P where
  init: "init params hw t = Inr c \<Longrightarrow> reach P (initial_sys c t)"
| step: "reach P s \<Longrightarrow> P e \<Longrightarrow> sys_step s e = Some s' \<Longrightarrow> reach P s'"

text \<open>
  The specification's target buffer keeps the last message and its receipt time, and a
  tick uses the zero twist when the message is older than 2 s. The code keeps the
  message in \<open>target_velocity\<close> with its own stamp, until a tick finds it stale and
  overwrites it with zero. \<open>target_refines\<close> relates the two while no callback is in
  flight and no tick ever ran inside a callback: the code's stamp is the receipt time
  the step recorded, and the stored target is the last message, or zero while that
  message is already stale at the latest time seen; while a callback is in flight the
  stored target is its message.
\<close>

definition target_refines :: "sys \<Rightarrow> bool" where
  "target_refines s \<longleftrightarrow>
     time_since_last_target_velocity (ctrl s) \<le> clock s \<and> last_msg_time s \<le> clock s \<and>
     (phase s \<noteq> Exited \<and> \<not> tick_in_callback s \<longrightarrow>
        (case pending s of
           None \<Rightarrow> time_since_last_target_velocity (ctrl s) = last_msg_time s \<and>
                   (target_velocity (ctrl s) = last_msg s \<or>
                    (target_velocity (ctrl s) = zero_twist \<and> clock s - last_msg_time s > 2))
         | Some m \<Rightarrow> target_velocity (ctrl s) = m))"

definition spec_effective_target :: "ros_time \<Rightarrow> sys \<Rightarrow> twist" where
  "spec_effective_target now s =
     (if now - last_msg_time s > 2 then zero_twist else last_msg s)"

lemma sys_step_SomeE:
  assumes "sys_step s e = Some s'"
  obtains (start) "e = Start" "phase s \<noteq> Running" "phase s \<noteq> Exited"
      "s' = s\<lparr>phase := Running, ctrl := starting (ctrl s)\<rparr>"
  | (tick) h now p c' es where "e = Tick h now p" "phase s = Running" "clock s \<le> now"
      "update h now p (ctrl s) = Inr (c', es)"
      "s' = s\<lparr>ctrl := c', clock := now, outputs := outputs s @ es,
              tick_in_callback := tick_in_callback s \<or> pending s \<noteq> None\<rparr>"
  | (tick_fail) h now p err where "e = Tick h now p" "phase s = Running" "clock s \<le> now"
      "update h now p (ctrl s) = Inl err"
      "s' = s\<lparr>phase := Exited, clock := now, tick_in_callback := tick_in_callback s \<or> pending s \<noteq> None\<rparr>"
  | (stop) "e = Stop" "phase s \<noteq> Initialized" "phase s \<noteq> Exited"
      "s' = s\<lparr>phase := Stopped, ctrl := fst (stopping (ctrl s)),
              outputs := outputs s @ snd (stopping (ctrl s))\<rparr>"
  | (store) m now where "e = Target_msg m now" "phase s \<noteq> Exited" "clock s \<le> now" "pending s = None"
      "s' = s\<lparr>ctrl := callback_store m (ctrl s), clock := now, pending := Some m\<rparr>"
  | (finish) m now c' where "e = Callback_done now" "phase s \<noteq> Exited" "clock s \<le> now"
      "pending s = Some m" "callback_finish now (ctrl s) = Inr c'"
      "s' = s\<lparr>ctrl := c', clock := now, last_msg := m, last_msg_time := now, pending := None\<rparr>"
  | (fatal) m now f where "e = Callback_done now" "phase s \<noteq> Exited" "clock s \<le> now"
      "pending s = Some m" "callback_finish now (ctrl s) = Inl f"
      "s' = s\<lparr>phase := Exited, clock := now, pending := None\<rparr>"
  using assms
  by (cases e) (auto simp: sys_step_def not_less split: if_splits sum.splits option.splits)

lemma sys_step_Exited: "phase s = Exited \<Longrightarrow> sys_step s e = None"
  by (simp add: sys_step_def)

text \<open>
  Rule induction over the reachable states with one case per kind of step; the two
  process-ending steps of a tick and of a callback share the case \<open>exited\<close>.
\<close>

lemma reach_induct_step [consumes 1, case_names init start tick exited stop store finish]:
  assumes "reach P s"
    and "\<And>params hw t c. init params hw t = Inr c \<Longrightarrow> Q (initial_sys c t)"
    and "\<And>s. reach P s \<Longrightarrow> Q s \<Longrightarrow> phase s \<noteq> Running \<Longrightarrow> phase s \<noteq> Exited \<Longrightarrow>
           Q (s\<lparr>phase := Running, ctrl := starting (ctrl s)\<rparr>)"
    and "\<And>s h now p c' es. reach P s \<Longrightarrow> Q s \<Longrightarrow> P (Tick h now p) \<Longrightarrow> phase s = Running \<Longrightarrow>
           clock s \<le> now \<Longrightarrow> update h now p (ctrl s) = Inr (c', es) \<Longrightarrow>
           Q (s\<lparr>ctrl := c', clock := now, outputs := outputs s @ es,
                 tick_in_callback := tick_in_callback s \<or> pending s \<noteq> None\<rparr>)"
    and "\<And>s now q b. reach P s \<Longrightarrow> Q s \<Longrightarrow> clock s \<le> now \<Longrightarrow>
           Q (s\<lparr>phase := Exited, clock := now, pending := q, tick_in_callback := b\<rparr>)"
    and "\<And>s. reach P s \<Longrightarrow> Q s \<Longrightarrow> phase s \<noteq> Initialized \<Longrightarrow> phase s \<noteq> Exited \<Longrightarrow>
           Q (s\<lparr>phase := Stopped, ctrl := fst (stopping (ctrl s)),
                 outputs := outputs s @ snd (stopping (ctrl s))\<rparr>)"
    and "\<And>s m now. reach P s \<Longrightarrow> Q s \<Longrightarrow> P (Target_msg m now) \<Longrightarrow> phase s \<noteq> Exited \<Longrightarrow>
           clock s \<le> now \<Longrightarrow> pending s = None \<Longrightarrow>
           Q (s\<lparr>ctrl := callback_store m (ctrl s), clock := now, pending := Some m\<rparr>)"
    and "\<And>s m now c'. reach P s \<Longrightarrow> Q s \<Longrightarrow> phase s \<noteq> Exited \<Longrightarrow>
           clock s \<le> now \<Longrightarrow> pending s = Some m \<Longrightarrow> callback_finish now (ctrl s) = Inr c' \<Longrightarrow>
           Q (s\<lparr>ctrl := c', clock := now, last_msg := m, last_msg_time := now, pending := None\<rparr>)"
  shows "Q s"
  using assms(1)
proof (induction rule: reach.induct)
  case (init params hw t c)
  then show ?case by (rule assms(2))
next
  case (step s e s')
  from step.hyps(3) show ?case
  proof (cases rule: sys_step_SomeE)
    case start
    with step show ?thesis by (simp add: assms(3))
  next
    case (tick h now p c' es)
    with step show ?thesis by (simp add: assms(4) del: not_None_eq)
  next
    case (tick_fail h now p err)
    with step assms(5) [where s = s and now = now and q = "pending s" and b = "tick_in_callback s \<or> pending s \<noteq> None"] show ?thesis
      by (cases s) (simp del: not_None_eq)
  next
    case stop
    with step show ?thesis by (simp add: assms(6))
  next
    case (store m now)
    with step show ?thesis by (simp add: assms(7))
  next
    case (finish m now c')
    with step show ?thesis by (simp add: assms(8))
  next
    case (fatal m now f)
    with step assms(5) [where s = s and now = now and q = None and b = "tick_in_callback s"] show ?thesis
      by (cases s) simp
  qed
qed

subsection \<open>The latch is never read before it is written\<close>

lemma update_latch_ok:
  "latch_ok c \<Longrightarrow> update h now p c = Inr (c', es) \<Longrightarrow> latch_ok c'"
  by (auto simp: update_Inr_iff tick_latch_ok)

lemma reach_latch_ok: "reach P s \<Longrightarrow> latch_ok (ctrl s)"
proof (induction rule: reach_induct_step)
  case (init params hw t c)
  then show ?case by (simp add: initial_sys_def latch_ok_def init_Inr_fields)
next
  case (tick s h now p c' es)
  then show ?case by (simp add: update_latch_ok)
next
  case (store s m now)
  then show ?case by (simp add: callback_store_def latch_ok_def)
next
  case (finish s m now c')
  then show ?case by (auto simp: callback_finish_Inr latch_ok_def)
qed (simp_all add: starting_def latch_ok_def)

lemma panda_init:
  "init [''arm_id'' \<mapsto> ''panda''] panda_hw t = Inr (panda_ctrl zero_vector3 zero_vector3 t False None)"
  by (simp add: init_def panda_hw_def panda_ctrl_def robot_handle_name_def zero_twist_def)

lemma reach_panda_init:
  "reach P (initial_sys (panda_ctrl zero_vector3 zero_vector3 t False None) t)"
  by (rule reach.init [OF panda_init])

text \<open>
  C7. In every reachable state, whatever the environment, the only way a tick fails is
  the missing state handle: with the handle present \<open>update\<close> succeeds, and in
  particular it never reads the contact latch \<open>ee_twist_cause_of_contact\<close> before a
  false-to-true contact transition has written it (\<open>Uninitialised_latch_read\<close>, the
  read of an uninitialised member in C++).
\<close>

theorem reach_tick_error_iff:
  assumes "reach P s"
  shows "update h now p (ctrl s) = Inl e \<longleftrightarrow>
           state_handle h (ctrl s) = None \<and> e = State_handle_missing"
proof
  assume fail: "update h now p (ctrl s) = Inl e"
  show "state_handle h (ctrl s) = None \<and> e = State_handle_missing"
  proof (cases "state_handle h (ctrl s)")
    case None
    with fail show ?thesis by (simp add: update_no_handle)
  next
    case (Some rs)
    then obtain t where "contact_clamp (contact_axes rs) (tick_latch (ctrl s) rs)
        (linear (target_velocity (check_staleness now (ctrl s)))) = Inr t"
      using update_succeeds [OF _ reach_latch_ok [OF assms]] by blast
    with fail Some show ?thesis by (simp add: update_eq_tick)
  qed
next
  assume "state_handle h (ctrl s) = None \<and> e = State_handle_missing"
  then show "update h now p (ctrl s) = Inl e" by (simp add: update_no_handle)
qed

theorem reach_tick_error_iff_witness:
  "update (panda_handles (robot_at (flags 1 0 0) (flags 0 0 0) (flags 0.05 0 0))) 1 0.001 (ctrl (initial_sys (panda_ctrl zero_vector3 zero_vector3 0 False None) 0)) \<noteq> Inl Uninitialised_latch_read"
  using reach_tick_error_iff [OF reach_panda_init [where P = "\<lambda>_. True" and t = 0],
      of "panda_handles (robot_at (flags 1 0 0) (flags 0 0 0) (flags 0.05 0 0))" 1 "0.001" Uninitialised_latch_read]
  by (simp add: initial_sys_def state_handle_def)

subsection \<open>The target buffer refines the per-tick staleness rule\<close>

lemma update_target_time:
  "update h now p c = Inr (c', es) \<Longrightarrow>
   target_velocity c' = target_velocity (check_staleness now c) \<and>
   time_since_last_target_velocity c' = time_since_last_target_velocity c"
  by (auto simp: update_Inr_iff)

lemma reach_target_refines: "reach P s \<Longrightarrow> target_refines s"
proof (induction rule: reach_induct_step)
  case (init params hw t c)
  then show ?case by (simp add: initial_sys_def target_refines_def init_Inr_fields)
next
  case (tick s h now p c' es)
  then show ?case
    by (auto simp: target_refines_def check_staleness_def split: if_splits option.splits
        dest!: update_target_time)
next
  case (exited s now q b)
  then show ?case by (auto simp: target_refines_def)
next
  case (store s m now)
  then show ?case by (auto simp: target_refines_def callback_store_def)
next
  case (finish s m now c')
  then show ?case by (auto simp: target_refines_def callback_finish_Inr)
qed (auto simp: target_refines_def starting_def split: option.splits)

lemma target_refines_effective:
  "target_refines s \<Longrightarrow> phase s \<noteq> Exited \<Longrightarrow> pending s = None \<Longrightarrow> \<not> tick_in_callback s \<Longrightarrow>
   clock s \<le> now \<Longrightarrow> target_velocity (check_staleness now (ctrl s)) = spec_effective_target now s"
  by (auto simp: target_refines_def check_staleness_def spec_effective_target_def)


lemma reach_after_msg: "reach (\<lambda>_. True) (((initial_sys (panda_ctrl zero_vector3 zero_vector3 0 False None) 0)\<lparr>ctrl := callback_store (\<lparr>linear = fin_vector3 1 0 0, angular = zero_vector3\<rparr>) (ctrl (initial_sys (panda_ctrl zero_vector3 zero_vector3 0 False None) 0)), clock := 1, pending := Some (\<lparr>linear = fin_vector3 1 0 0, angular = zero_vector3\<rparr>)\<rparr>)\<lparr>ctrl := (ctrl ((initial_sys (panda_ctrl zero_vector3 zero_vector3 0 False None) 0)\<lparr>ctrl := callback_store (\<lparr>linear = fin_vector3 1 0 0, angular = zero_vector3\<rparr>) (ctrl (initial_sys (panda_ctrl zero_vector3 zero_vector3 0 False None) 0)), clock := 1, pending := Some (\<lparr>linear = fin_vector3 1 0 0, angular = zero_vector3\<rparr>)\<rparr>))\<lparr>time_since_last_target_velocity := 1\<rparr>, clock := 1, last_msg := \<lparr>linear = fin_vector3 1 0 0, angular = zero_vector3\<rparr>, last_msg_time := 1, pending := None\<rparr>)"
proof (rule reach.step [where e = "Callback_done 1"])
  show "reach (\<lambda>_. True) ((initial_sys (panda_ctrl zero_vector3 zero_vector3 0 False None) 0)\<lparr>ctrl := callback_store (\<lparr>linear = fin_vector3 1 0 0, angular = zero_vector3\<rparr>) (ctrl (initial_sys (panda_ctrl zero_vector3 zero_vector3 0 False None) 0)), clock := 1, pending := Some (\<lparr>linear = fin_vector3 1 0 0, angular = zero_vector3\<rparr>)\<rparr>)"
    by (rule reach.step [OF reach_panda_init [where t = 0], where e = "Target_msg (\<lparr>linear = fin_vector3 1 0 0, angular = zero_vector3\<rparr>) 1"])
       (simp_all add: sys_step_def initial_sys_def)
qed (simp_all add: sys_step_def initial_sys_def callback_finish_def callback_store_def has_nan_def
       dneq_def fin_vector3_def)


subsection \<open>A NaN target ends the process\<close>

text \<open>
  C9. A target message with a NaN in any of its six components, delivered in any phase
  before the process has ended and while no other callback is in flight, is first stored
  into the shared target (line 67); when its callback then completes without a tick in
  between, the check finds the NaN and the process ends (\<open>exit(-1)\<close>), after which no
  event, no tick in particular, is possible.
\<close>

theorem nan_target_exits:
  assumes "phase s \<noteq> Exited" and "pending s = None" and "clock s \<le> now" and "now \<le> now'"
    and "NaN \<in> set (twist_components m)"
  shows "\<exists>s1 s2. sys_step s (Target_msg m now) = Some s1 \<and> target_velocity (ctrl s1) = m \<and>
           sys_step s1 (Callback_done now') = Some s2 \<and> phase s2 = Exited \<and>
           (\<forall>e. sys_step s2 e = None)"
  using assms
  by (simp add: sys_step_def callback_store_def callback_finish_def has_nan_iff not_less)

theorem nan_target_exits_witness:
  "\<exists>s1 s2. sys_step (initial_sys (panda_ctrl zero_vector3 zero_vector3 0 False None) 0) (Target_msg (\<lparr>linear = \<lparr>vx = NaN, vy = 0, vz = 0\<rparr>, angular = zero_vector3\<rparr>) 1) = Some s1 \<and> target_velocity (ctrl s1) = \<lparr>linear = \<lparr>vx = NaN, vy = 0, vz = 0\<rparr>, angular = zero_vector3\<rparr> \<and>
     sys_step s1 (Callback_done 1) = Some s2 \<and> phase s2 = Exited \<and> (\<forall>e. sys_step s2 e = None)"
  using nan_target_exits [where s = "(initial_sys (panda_ctrl zero_vector3 zero_vector3 0 False None) 0)" and now = 1 and now' = 1 and m = "\<lparr>linear = \<lparr>vx = NaN, vy = 0, vz = 0\<rparr>, angular = zero_vector3\<rparr>"]
  by (simp add: initial_sys_def twist_components_def)

text \<open>
  C21. A tick whose state handle \<open>arm_id + "_robot"\<close> is missing from the state interface
  throws an exception that \<open>update\<close> does not catch: in every reachable running state
  such a tick ends the process, and nothing can happen afterwards.
\<close>

theorem tick_missing_handle_exits:
  assumes "reach P s" and "phase s = Running" and "clock s \<le> now" and "state_handle h (ctrl s) = None"
  shows "\<exists>s'. sys_step s (Tick h now p) = Some s' \<and> phase s' = Exited \<and> outputs s' = outputs s \<and>
           (\<forall>e. sys_step s' e = None)"
  using assms(2-4) by (simp add: sys_step_def update_no_handle not_less)

theorem tick_missing_handle_exits_witness:
  "\<exists>s'. sys_step ((initial_sys (panda_ctrl zero_vector3 zero_vector3 0 False None) 0)\<lparr>phase := Running\<rparr>) (Tick Map.empty 1 0.001) = Some s' \<and>
     phase s' = Exited \<and> outputs s' = outputs ((initial_sys (panda_ctrl zero_vector3 zero_vector3 0 False None) 0)\<lparr>phase := Running\<rparr>) \<and> (\<forall>e. sys_step s' e = None)"
proof -
  have r: "reach (\<lambda>_. True) ((initial_sys (panda_ctrl zero_vector3 zero_vector3 0 False None) 0)\<lparr>phase := Running\<rparr>)"
    by (rule reach.step [OF reach_panda_init [where t = 0], where e = Start])
       (simp_all add: sys_step_def initial_sys_def starting_def panda_ctrl_def zero_twist_def)
  show ?thesis
    using tick_missing_handle_exits [OF r, where h = Map.empty and now = 1 and p = "0.001"]
    by (simp add: initial_sys_def state_handle_def)
qed

end
