(* ===== verification/Bounds.thy ===== *)
theory Bounds
  imports Lifecycle
begin

text \<open>
  Magnitude bounds. When every target message has linear components of magnitude at most
  \<open>M\<close>, the smoothed velocity stays within \<open>v_max / 2 * M = 0.075 * M\<close> on each axis
  (the filter is a convex combination of the old value and \<open>v_max / 2\<close> times a target
  that the clamp only ever replaces by zero), every command ever sent is finite and within
  the same bound, and one tick changes an axis by at most \<open>(1 - alpha) * v_max * M\<close>.
\<close>

definition bounded_vec :: "real \<Rightarrow> vector3 \<Rightarrow> bool" where
  "bounded_vec M v \<longleftrightarrow> (\<exists>a b c. v = fin_vector3 a b c \<and> \<bar>a\<bar> \<le> M \<and> \<bar>b\<bar> \<le> M \<and> \<bar>c\<bar> \<le> M)"

definition bounded_cmd :: "real \<Rightarrow> double list \<Rightarrow> bool" where
  "bounded_cmd M xs \<longleftrightarrow> list_all (\<lambda>x. \<exists>a. x = Fin a \<and> \<bar>a\<bar> \<le> M) xs"

definition commands_bounded :: "real \<Rightarrow> effect list \<Rightarrow> bool" where
  "commands_bounded M es \<longleftrightarrow>
     (\<forall>e \<in> set es. case e of SetCommand xs \<Rightarrow> bounded_cmd M xs | Publish _ \<Rightarrow> True)"

definition msg_bounded :: "real \<Rightarrow> event \<Rightarrow> bool" where
  "msg_bounded M e = (case e of Target_msg m _ \<Rightarrow> bounded_vec M (linear m) | _ \<Rightarrow> True)"

definition bound_inv :: "real \<Rightarrow> sys \<Rightarrow> bool" where
  "bound_inv M s \<longleftrightarrow>
     bounded_vec (0.075 * M) (linear (current_velocity (ctrl s))) \<and>
     bounded_vec M (linear (target_velocity (ctrl s))) \<and> commands_bounded (0.075 * M) (outputs s)"

definition step_le :: "real \<Rightarrow> vector3 \<Rightarrow> vector3 \<Rightarrow> bool" where
  "step_le K v w \<longleftrightarrow>
     (\<exists>a b c a' b' c'. v = fin_vector3 a b c \<and> w = fin_vector3 a' b' c' \<and>
        \<bar>a' - a\<bar> \<le> K \<and> \<bar>b' - b\<bar> \<le> K \<and> \<bar>c' - c\<bar> \<le> K)"

definition msg_finite :: "event \<Rightarrow> bool" where
  "msg_finite e = (case e of Target_msg m _ \<Rightarrow> vector3_finite (linear m) | _ \<Rightarrow> True)"

definition commands_finite :: "effect list \<Rightarrow> bool" where
  "commands_finite es \<longleftrightarrow>
     (\<forall>e \<in> set es. case e of SetCommand xs \<Rightarrow> list_all is_finite xs | Publish _ \<Rightarrow> True)"

lemma bounded_vec_zero [simp]: "0 \<le> M \<Longrightarrow> bounded_vec M zero_vector3"
  by (auto simp: bounded_vec_def zero_vector3_fin)

lemma bounded_vec_fin [simp]:
  "bounded_vec M (fin_vector3 a b c) \<longleftrightarrow> \<bar>a\<bar> \<le> M \<and> \<bar>b\<bar> \<le> M \<and> \<bar>c\<bar> \<le> M"
  by (simp add: bounded_vec_def)

lemma bounded_vec_intro:
  "\<bar>a\<bar> \<le> M \<Longrightarrow> \<bar>b\<bar> \<le> M \<Longrightarrow> \<bar>c\<bar> \<le> M \<Longrightarrow> bounded_vec M (fin_vector3 a b c)"
  by simp

lemma bounded_vecE:
  assumes "bounded_vec M v"
  obtains a b c where "v = fin_vector3 a b c" "\<bar>a\<bar> \<le> M" "\<bar>b\<bar> \<le> M" "\<bar>c\<bar> \<le> M"
  using assms by (auto simp: bounded_vec_def)

lemma clamp_axis_cases: "clamp_axis b t e = Fin 0 \<or> clamp_axis b t e = t"
  by (simp add: clamp_axis_def)

lemma bounded_fin_or_zero: "0 \<le> M \<Longrightarrow> (x = Fin 0 \<or> x = Fin a) \<Longrightarrow> \<bar>a\<bar> \<le> M \<Longrightarrow> \<exists>a'. x = Fin a' \<and> \<bar>a'\<bar> \<le> M"
  by auto

lemma contact_clamp_bounded:
  assumes "contact_clamp axes l v = Inr t" "bounded_vec M v" "0 \<le> M"
  shows "bounded_vec M t"
proof (cases "is_in_contact axes")
  case False
  with assms(1,2) show ?thesis by (simp add: contact_clamp_no_contact)
next
  case True
  obtain cx cy cz where ax: "axes = (cx, cy, cz)" by (cases axes)
  obtain a b c where v: "v = fin_vector3 a b c" "\<bar>a\<bar> \<le> M" "\<bar>b\<bar> \<le> M" "\<bar>c\<bar> \<le> M"
    using assms(2) by (auto simp: bounded_vec_def)
  obtain e where l: "l = Some e" using assms(1) True ax by (cases l) (auto simp: contact_clamp_def)
  have t: "t = \<lparr>vx = clamp_axis cx (Fin a) (e ! 0), vy = clamp_axis cy (Fin b) (e ! 1),
               vz = clamp_axis cz (Fin c) (e ! 2)\<rparr>"
    using assms(1) ax l v(1) by (simp add: contact_clamp_Some)
  obtain a' where "clamp_axis cx (Fin a) (e ! 0) = Fin a'" "\<bar>a'\<bar> \<le> M"
    using bounded_fin_or_zero [OF assms(3) clamp_axis_cases v(2)] by blast
  moreover obtain b' where "clamp_axis cy (Fin b) (e ! 1) = Fin b'" "\<bar>b'\<bar> \<le> M"
    using bounded_fin_or_zero [OF assms(3) clamp_axis_cases v(3)] by blast
  moreover obtain c' where "clamp_axis cz (Fin c) (e ! 2) = Fin c'" "\<bar>c'\<bar> \<le> M"
    using bounded_fin_or_zero [OF assms(3) clamp_axis_cases v(4)] by blast
  ultimately show ?thesis using t by (auto simp: bounded_vec_def fin_vector3_def)
qed

lemma smooth_real_bound:
  fixes s t M :: real
  assumes "\<bar>s\<bar> \<le> 0.075 * M" "\<bar>t\<bar> \<le> M"
  shows "\<bar>0.995 * s + 0.000375 * t\<bar> \<le> 0.075 * M"
proof -
  have "\<bar>0.075 * t\<bar> \<le> 0.075 * M" using assms(2) by (simp add: abs_mult)
  from convex_abs_bound [of "0.995" s "0.075 * M" "0.075 * t"] assms(1) this
  show ?thesis by simp
qed

lemma smooth_linear_bounded:
  assumes "bounded_vec (0.075 * M) v" "bounded_vec M t"
  shows "bounded_vec (0.075 * M) (smooth_linear v t)"
proof -
  obtain a b c where v: "v = fin_vector3 a b c" "\<bar>a\<bar> \<le> 0.075 * M" "\<bar>b\<bar> \<le> 0.075 * M" "\<bar>c\<bar> \<le> 0.075 * M"
    using assms(1) by (rule bounded_vecE)
  obtain d e f where t: "t = fin_vector3 d e f" "\<bar>d\<bar> \<le> M" "\<bar>e\<bar> \<le> M" "\<bar>f\<bar> \<le> M"
    using assms(2) by (rule bounded_vecE)
  show ?thesis
    unfolding v(1) t(1) smooth_linear_fin
    by (intro bounded_vec_intro smooth_real_bound v(2-4) t(2-4))
qed

lemma smooth_real_step:
  fixes s t M :: real
  assumes "\<bar>s\<bar> \<le> 0.075 * M" "\<bar>t\<bar> \<le> M"
  shows "\<bar>(0.995 * s + 0.000375 * t) - s\<bar> \<le> 0.00075 * M"
proof -
  have eq: "(0.995 * s + 0.000375 * t) - s = 0.005 * (0.075 * t - s)" by simp
  have "\<bar>0.075 * t - s\<bar> \<le> 0.15 * M"
    using assms abs_triangle_ineq4 [of "0.075 * t" s] by (simp add: abs_mult)
  then have "0.005 * \<bar>0.075 * t - s\<bar> \<le> 0.005 * (0.15 * M)" by (rule mult_left_mono) simp
  then show ?thesis by (simp only: eq abs_mult) simp
qed

lemma step_le_intro:
  "\<bar>a' - a\<bar> \<le> K \<Longrightarrow> \<bar>b' - b\<bar> \<le> K \<Longrightarrow> \<bar>c' - c\<bar> \<le> K \<Longrightarrow>
   step_le K (fin_vector3 a b c) (fin_vector3 a' b' c')"
  unfolding step_le_def by blast

lemma smooth_linear_step:
  assumes "bounded_vec (0.075 * M) v" "bounded_vec M t"
  shows "step_le (0.00075 * M) v (smooth_linear v t)"
proof -
  obtain a b c where v: "v = fin_vector3 a b c" "\<bar>a\<bar> \<le> 0.075 * M" "\<bar>b\<bar> \<le> 0.075 * M" "\<bar>c\<bar> \<le> 0.075 * M"
    using assms(1) by (rule bounded_vecE)
  obtain d e f where t: "t = fin_vector3 d e f" "\<bar>d\<bar> \<le> M" "\<bar>e\<bar> \<le> M" "\<bar>f\<bar> \<le> M"
    using assms(2) by (rule bounded_vecE)
  show ?thesis
    unfolding v(1) t(1) smooth_linear_fin
    by (intro step_le_intro smooth_real_step v(2-4) t(2-4))
qed

lemma command_of_bounded: "bounded_vec K v \<Longrightarrow> 0 \<le> K \<Longrightarrow> bounded_cmd K (command_of v)"
  by (auto simp: bounded_vec_def bounded_cmd_def command_of_def)

lemma derate_bounded:
  assumes "bounded_vec K v" "0 \<le> K"
  shows "bounded_vec K (derate v)"
proof -
  have h: "\<bar>sqrt 2 / 2 * a\<bar> \<le> K" if "\<bar>a\<bar> \<le> K" for a
  proof -
    have "sqrt 2 / 2 * \<bar>a\<bar> \<le> 1 * K"
      using sqrt2_half_bounds that by (intro mult_mono) auto
    then show ?thesis by (simp add: abs_mult)
  qed
  obtain a b c where "v = fin_vector3 a b c" "\<bar>a\<bar> \<le> K" "\<bar>b\<bar> \<le> K" "\<bar>c\<bar> \<le> K"
    using assms(1) by (auto simp: bounded_vec_def)
  then show ?thesis by (simp del: times_divide_eq_left add: h)
qed

lemma output_of_bounded:
  "bounded_vec K v \<Longrightarrow> 0 \<le> K \<Longrightarrow> bounded_vec K (output_of rs v)"
  by (simp add: output_of_def derate_bounded)

lemma update_bounded:
  assumes "update h now p c = Inr (c', es)" "0 \<le> M"
    and "bounded_vec (0.075 * M) (linear (current_velocity c))" "bounded_vec M (linear (target_velocity c))"
  shows "bounded_vec (0.075 * M) (linear (current_velocity c')) \<and>
         bounded_vec M (linear (target_velocity c')) \<and> commands_bounded (0.075 * M) es \<and>
         step_le (0.00075 * M) (linear (current_velocity c)) (linear (current_velocity c'))"
proof -
  obtain rs t where cl: "contact_clamp (contact_axes rs) (tick_latch c rs)
        (linear (target_velocity (check_staleness now c))) = Inr t"
    and r: "(c', es) = (tick_state now p c rs t, tick_effects rs (linear (current_velocity c)) t)"
    using assms(1) by (auto simp: update_Inr_iff)
  have tgt: "bounded_vec M (linear (target_velocity (check_staleness now c)))"
    using assms(2,4) by (simp add: check_staleness_def)
  have t: "bounded_vec M t" by (rule contact_clamp_bounded [OF cl tgt assms(2)])
  have cv: "bounded_vec (0.075 * M) (smooth_linear (linear (current_velocity c)) t)"
    using assms(3) t by (rule smooth_linear_bounded)
  have "bounded_cmd (0.075 * M) (command_of (output_of rs (smooth_linear (linear (current_velocity c)) t)))"
    using cv assms(2) by (simp add: output_of_bounded command_of_bounded)
  then show ?thesis
    using r cv tgt smooth_linear_step [OF assms(3) t]
    by (auto simp: tick_effects_eq commands_bounded_def)
qed

lemma stopping_bounded:
  assumes "bounded_vec K (linear (current_velocity c))" "0 \<le> K"
  shows "bounded_vec K (linear (current_velocity (fst (stopping c)))) \<and>
         commands_bounded K (snd (stopping c))"
proof -
  obtain a b d where v: "linear (current_velocity c) = fin_vector3 a b d" "\<bar>a\<bar> \<le> K" "\<bar>b\<bar> \<le> K" "\<bar>d\<bar> \<le> K"
    using assms(1) by (auto simp: bounded_vec_def)
  have h: "\<And>x. \<bar>x\<bar> \<le> K \<Longrightarrow> \<bar>0.995 * x\<bar> \<le> K"
    using scaled_abs_le [of "0.995"] order_trans by fastforce
  have b: "bounded_vec K (fin_vector3 (0.995 * a) (0.995 * b) (0.995 * d))"
    by (intro bounded_vec_intro h v(2-4))
  have "bounded_cmd K (command_of (fin_vector3 (0.995 * a) (0.995 * b) (0.995 * d)))"
    using b assms(2) by (rule command_of_bounded)
  then show ?thesis
    unfolding stopping_fin [OF v(1)] using b
    by (simp only: fst_conv snd_conv commands_bounded_def command_of_fin [symmetric]) auto
qed

lemma reach_bound_inv:
  assumes "reach (msg_bounded M) s" "0 \<le> M"
  shows "bound_inv M s"
  using assms(1)
proof (induction rule: reach_induct_step)
  case (init params hw t c)
  then show ?case
    using assms(2) by (simp add: initial_sys_def bound_inv_def init_Inr_fields commands_bounded_def)
next
  case (start s)
  then show ?case using assms(2) by (simp add: bound_inv_def starting_def)
next
  case (tick s h now p c' es)
  then show ?case
    using update_bounded [of h now p "ctrl s" c' es M] assms(2)
    by (auto simp: bound_inv_def commands_bounded_def)
next
  case (exited s now q b)
  then show ?case by (simp add: bound_inv_def)
next
  case (stop s)
  then show ?case
    using stopping_bounded [of "0.075 * M" "ctrl s"] assms(2)
    by (auto simp: bound_inv_def commands_bounded_def)
next
  case (store s m now)
  then show ?case by (simp add: bound_inv_def callback_store_def msg_bounded_def)
next
  case (finish s m now c')
  then show ?case by (auto simp: bound_inv_def callback_finish_Inr)
qed

subsection \<open>Finiteness for finite targets\<close>

lemma vector3_finite_bounded:
  "vector3_finite v \<longleftrightarrow> (\<exists>M. 0 \<le> M \<and> bounded_vec M v)"
proof
  assume "vector3_finite v"
  then obtain a b c where "v = fin_vector3 a b c" by (auto simp: vector3_finite_iff)
  then show "\<exists>M. 0 \<le> M \<and> bounded_vec M v"
    by (intro exI [of _ "\<bar>a\<bar> + \<bar>b\<bar> + \<bar>c\<bar>"]) simp
next
  assume "\<exists>M. 0 \<le> M \<and> bounded_vec M v"
  then show "vector3_finite v" by (auto simp: bounded_vec_def vector3_finite_iff)
qed

lemma bounded_cmd_finite: "bounded_cmd K xs \<Longrightarrow> list_all is_finite xs"
  by (auto simp: bounded_cmd_def list_all_iff)

lemma commands_bounded_finite: "commands_bounded K es \<Longrightarrow> commands_finite es"
  by (auto simp: commands_bounded_def commands_finite_def bounded_cmd_finite split: effect.splits)

lemma stopping_finite:
  assumes "vector3_finite (linear (current_velocity c))"
  shows "vector3_finite (linear (current_velocity (fst (stopping c)))) \<and> commands_finite (snd (stopping c))"
proof -
  obtain M where "0 \<le> M" "bounded_vec M (linear (current_velocity c))"
    using assms by (auto simp: vector3_finite_bounded)
  with stopping_bounded [of M c] show ?thesis
    using vector3_finite_bounded commands_bounded_finite by blast
qed

text \<open>
  C10. Velocity bound: if every target message has linear components of magnitude at most
  \<open>M\<close>, then in every reachable state each linear axis of the smoothed velocity has
  magnitude at most \<open>v_max / 2 * M = 0.075 * M\<close>, and every command sent so far, by a
  tick or by \<open>stopping\<close>, consists of finite values of magnitude at most \<open>0.075 * M\<close>.
\<close>

theorem reach_velocity_bounded:
  assumes "reach (msg_bounded M) s" and "0 \<le> M"
  shows "bounded_vec (0.075 * M) (linear (current_velocity (ctrl s))) \<and>
         commands_bounded (0.075 * M) (outputs s)"
  using reach_bound_inv [OF assms] by (simp add: bound_inv_def)

theorem reach_velocity_bounded_witness:
  "bounded_vec (0.075 * 1) (linear (current_velocity (ctrl (initial_sys (panda_ctrl zero_vector3 zero_vector3 0 False None) 0)))) \<and>
   commands_bounded (0.075 * 1) (outputs (initial_sys (panda_ctrl zero_vector3 zero_vector3 0 False None) 0))"
  using reach_velocity_bounded [OF reach_panda_init [where P = "msg_bounded 1" and t = 0]]
  by simp

text \<open>
  C11. Per-tick step bound: under the same bound \<open>M\<close> on the targets, from every
  reachable state whose state handle is present a tick succeeds and changes each linear
  axis of the smoothed velocity by at most \<open>(1 - alpha) * v_max * M = 0.00075 * M\<close>,
  whatever the jumps of the target.
\<close>

theorem reach_tick_step_bounded:
  assumes "reach (msg_bounded M) s" and "0 \<le> M" and "state_handle h (ctrl s) = Some rs"
  shows "\<exists>c' es. update h now p (ctrl s) = Inr (c', es) \<and>
           step_le (0.00075 * M) (linear (current_velocity (ctrl s))) (linear (current_velocity c'))"
proof -
  obtain t where "contact_clamp (contact_axes rs) (tick_latch (ctrl s) rs)
      (linear (target_velocity (check_staleness now (ctrl s)))) = Inr t"
    using update_succeeds [OF assms(3) reach_latch_ok [OF assms(1)]] by blast
  then obtain c' es where u: "update h now p (ctrl s) = Inr (c', es)"
    using update_eq_tick [OF assms(3)] by blast
  from reach_bound_inv [OF assms(1,2)] have
    "bounded_vec (0.075 * M) (linear (current_velocity (ctrl s)))"
    "bounded_vec M (linear (target_velocity (ctrl s)))"
    by (simp_all add: bound_inv_def)
  with update_bounded [OF u assms(2)] u show ?thesis by blast
qed

theorem reach_tick_step_bounded_witness:
  "\<exists>c' es. update (panda_handles (robot_at (flags 0 0 0) (flags 0 0 0) (flags 0 0 0))) 1 0.001
              (ctrl (initial_sys (panda_ctrl zero_vector3 zero_vector3 0 False None) 0)) = Inr (c', es) \<and>
     step_le (0.00075 * 1) (linear (current_velocity (ctrl (initial_sys (panda_ctrl zero_vector3 zero_vector3 0 False None) 0))))
       (linear (current_velocity c'))"
  using reach_tick_step_bounded [OF reach_panda_init [where P = "msg_bounded 1" and t = 0],
      where h = "panda_handles (robot_at (flags 0 0 0) (flags 0 0 0) (flags 0 0 0))"
      and rs = "robot_at (flags 0 0 0) (flags 0 0 0) (flags 0 0 0)" and now = 1 and p = "0.001"]
  by (simp add: state_handle_def initial_sys_def)


end
