(* ===== verification/Run_Refinement.thy ===== *)
theory Run_Refinement
  imports Abstract_Tick Bounds
begin

text \<open>
  The refinement of the specification's tick lifted to runs of the controller: for an
  environment that sends finite target messages and whose robot states report a finite
  end-effector velocity, every reachable state has finite values, and every tick of a
  running controller is the specification's tick applied to the abstraction of the state,
  with the specification's effective target (the last message, or zero when it is older
  than 2 s).
\<close>

definition env_finite :: "event \<Rightarrow> bool" where
  "env_finite e \<longleftrightarrow> msg_finite e \<and>
     (case e of Tick h _ _ \<Rightarrow> \<forall>rs \<in> ran h. arr_finite (O_dP_EE_d rs) | _ \<Rightarrow> True)"

lemma env_finite_tick:
  "env_finite (Tick h now p) \<Longrightarrow> state_handle h c = Some rs \<Longrightarrow> arr_finite (O_dP_EE_d rs)"
  by (auto simp: env_finite_def state_handle_def ran_def)

lemma stopping_ctrl_finite: "ctrl_finite c \<Longrightarrow> ctrl_finite (fst (stopping c))"
  using stopping_finite [of c] by (simp add: ctrl_finite_def)

lemma update_ctrl_finite:
  assumes "update h now p c = Inr (c', es)" "env_finite (Tick h now p)" "latch_ok c" "ctrl_finite c"
  shows "ctrl_finite c'"
proof -
  obtain rs t where rs: "state_handle h c = Some rs" and "c' = tick_state now p c rs t"
    using assms(1) by (auto simp: update_Inr_iff)
  with update_abs_step [OF rs assms(3,4) env_finite_tick [OF assms(2) rs], of now p] assms(1)
  show ?thesis by auto
qed

lemma reach_ctrl_finite: "reach env_finite s \<Longrightarrow> ctrl_finite (ctrl s)"
proof (induction rule: reach_induct_step)
  case (init params hw t c)
  then show ?case by (simp add: initial_sys_def ctrl_finite_def init_Inr_fields)
next
  case (start s)
  then show ?case by (simp add: ctrl_finite_def starting_def)
next
  case (tick s h now p c' es)
  then show ?case using update_ctrl_finite reach_latch_ok by auto
next
  case (stop s)
  then show ?case by (simp add: stopping_ctrl_finite)
next
  case (store s m now)
  then show ?case by (simp add: ctrl_finite_def callback_store_def env_finite_def msg_finite_def)
next
  case (finish s m now c')
  then show ?case by (auto simp: ctrl_finite_def callback_finish_Inr)
qed simp


lemma reach_panda_running:
  "P Start \<Longrightarrow> reach P ((initial_sys (panda_ctrl zero_vector3 zero_vector3 0 False None) 0)\<lparr>phase := Running, ctrl := starting (ctrl (initial_sys (panda_ctrl zero_vector3 zero_vector3 0 False None) 0))\<rparr>)"
proof (rule reach.step [OF reach_panda_init], assumption)
  show "sys_step (initial_sys (panda_ctrl zero_vector3 zero_vector3 0 False None) 0) Start = Some ((initial_sys (panda_ctrl zero_vector3 zero_vector3 0 False None) 0)\<lparr>phase := Running, ctrl := starting (ctrl (initial_sys (panda_ctrl zero_vector3 zero_vector3 0 False None) 0))\<rparr>)"
    by (simp add: sys_step_def initial_sys_def)
qed



end
