(* ===== verification/Convergence.thy ===== *)
theory Convergence
  imports Shaping
begin

text \<open>
  Runs of consecutive ticks. The control loop of the host calls \<open>update\<close> once per period;
  \<open>run_ticks\<close> runs a list of ticks (state handles, time, period) from a controller state
  and stops at the first error, as the uncaught exception would. With a fixed fresh target
  and no contact the smoothed velocity follows the closed form of a first-order filter,
  \<open>s_n = g + 0.995 ^ n * (s_0 - g)\<close> with the steady state \<open>g = v_max / 2 * t\<close>; with a
  zero target it decays geometrically to the fixed point zero.
\<close>

fun run_ticks ::
  "(state_handles \<times> ros_time \<times> ros_duration) list \<Rightarrow> controller \<Rightarrow> update_error + controller" where
  "run_ticks [] c = Inr c"
| "run_ticks ((h, now, p) # ins) c =
     (case update h now p c of Inl e \<Rightarrow> Inl e | Inr (c', _) \<Rightarrow> run_ticks ins c')"

definition filter_closed_form :: "nat \<Rightarrow> real \<Rightarrow> real \<Rightarrow> real" where
  "filter_closed_form n s t = 0.075 * t + 0.995 ^ n * (s - 0.075 * t)"

definition fresh_free_ticks ::
  "controller \<Rightarrow> (state_handles \<times> ros_time \<times> ros_duration) list \<Rightarrow> bool" where
  "fresh_free_ticks c ins \<longleftrightarrow>
     (\<forall>(h, now, p) \<in> set ins.
        (\<exists>rs. state_handle h c = Some rs \<and> \<not> is_in_contact (contact_axes rs)) \<and>
        now - time_since_last_target_velocity c \<le> 2)"

definition handles_present ::
  "controller \<Rightarrow> (state_handles \<times> ros_time \<times> ros_duration) list \<Rightarrow> bool" where
  "handles_present c ins \<longleftrightarrow> (\<forall>(h, now, p) \<in> set ins. state_handle h c \<noteq> None)"

lemma filter_closed_form_Suc:
  "0.995 * filter_closed_form n s t + 0.000375 * t = filter_closed_form (Suc n) s t"
  by (simp add: filter_closed_form_def field_simps)

lemma smooth_axis_closed_form:
  "smooth_axis (Fin (filter_closed_form n s t)) (Fin t) = Fin (filter_closed_form (Suc n) s t)"
  by (simp only: smooth_axis_fin filter_closed_form_Suc)

lemma filter_closed_form_0 [simp]: "filter_closed_form 0 s t = s"
  by (simp add: filter_closed_form_def)

lemma filter_closed_form_limit: "(\<lambda>n. filter_closed_form n s t) \<longlonglongrightarrow> 0.075 * t"
proof -
  have "(\<lambda>n. 0.075 * t + 0.995 ^ n * (s - 0.075 * t)) \<longlonglongrightarrow> 0.075 * t + 0"
    by (intro tendsto_add tendsto_const power_scaled_tendsto_zero) simp_all
  then show ?thesis by (simp add: filter_closed_form_def)
qed

text \<open>One fresh tick without contact with a constant target, as a step of the closed form.\<close>

lemma update_fresh_constant_target:
  assumes "state_handle h c = Some rs" "\<not> is_in_contact (contact_axes rs)"
    and "now - time_since_last_target_velocity c \<le> 2"
    and "linear (current_velocity c) = fin_vector3 (filter_closed_form n sx tx) (filter_closed_form n sy ty) (filter_closed_form n sz tz)"
    and "linear (target_velocity c) = fin_vector3 tx ty tz"
  shows "\<exists>c' es. update h now p c = Inr (c', es) \<and>
     linear (current_velocity c') = fin_vector3 (filter_closed_form (Suc n) sx tx)
        (filter_closed_form (Suc n) sy ty) (filter_closed_form (Suc n) sz tz) \<and>
     arm_id c' = arm_id c \<and> target_velocity c' = target_velocity c \<and>
     time_since_last_target_velocity c' = time_since_last_target_velocity c"
proof -
  have cl: "contact_clamp (contact_axes rs) (tick_latch c rs)
      (linear (target_velocity (check_staleness now c))) = Inr (linear (target_velocity c))"
    using assms(2,3) by (simp add: contact_clamp_no_contact check_staleness_fresh)
  show ?thesis
    using update_eq_tick [OF assms(1) cl, of p] assms(3,4,5)
    by (simp del: smooth_axis_fin smooth_linear_fin
        add: check_staleness_fresh smooth_linear_def smooth_axis_closed_form fin_vector3_def)
qed

lemma fresh_free_ticks_cong:
  "arm_id c' = arm_id c \<Longrightarrow> time_since_last_target_velocity c' = time_since_last_target_velocity c \<Longrightarrow>
   fresh_free_ticks c' ins = fresh_free_ticks c ins"
  by (simp add: fresh_free_ticks_def state_handle_def)

lemma handles_present_cong:
  "arm_id c' = arm_id c \<Longrightarrow> handles_present c' ins = handles_present c ins"
  by (simp add: handles_present_def state_handle_def)

lemma run_ticks_closed_form:
  assumes "linear (current_velocity c) =
      fin_vector3 (filter_closed_form n sx tx) (filter_closed_form n sy ty) (filter_closed_form n sz tz)"
    and "linear (target_velocity c) = fin_vector3 tx ty tz" and "fresh_free_ticks c ins"
  shows "\<exists>c'. run_ticks ins c = Inr c' \<and>
     linear (current_velocity c') = fin_vector3 (filter_closed_form (n + length ins) sx tx)
        (filter_closed_form (n + length ins) sy ty) (filter_closed_form (n + length ins) sz tz)"
  using assms
proof (induction ins arbitrary: c n)
  case Nil
  then show ?case by simp
next
  case (Cons i ins)
  obtain h now p where i: "i = (h, now, p)" by (cases i)
  from Cons.prems(3) i obtain rs where rs: "state_handle h c = Some rs" "\<not> is_in_contact (contact_axes rs)"
    and fresh: "now - time_since_last_target_velocity c \<le> 2" and rest: "fresh_free_ticks c ins"
    by (auto simp: fresh_free_ticks_def)
  obtain c1 es where u: "update h now p c = Inr (c1, es)"
    and c1: "linear (current_velocity c1) = fin_vector3 (filter_closed_form (Suc n) sx tx)
        (filter_closed_form (Suc n) sy ty) (filter_closed_form (Suc n) sz tz)"
    and same: "arm_id c1 = arm_id c" "target_velocity c1 = target_velocity c"
      "time_since_last_target_velocity c1 = time_since_last_target_velocity c"
    using update_fresh_constant_target [OF rs fresh Cons.prems(1,2), of p] by blast
  have "fresh_free_ticks c1 ins" using rest fresh_free_ticks_cong [OF same(1,3)] by simp
  with Cons.IH [OF c1] Cons.prems(2) same(2) obtain c' where
    "run_ticks ins c1 = Inr c'" and "linear (current_velocity c') = fin_vector3
        (filter_closed_form (Suc n + length ins) sx tx) (filter_closed_form (Suc n + length ins) sy ty)
        (filter_closed_form (Suc n + length ins) sz tz)"
    by auto
  with u i show ?case by simp
qed

lemma update_zero_target:
  assumes "state_handle h c = Some rs" "latch_ok c" "target_velocity c = zero_twist"
    and "linear (current_velocity c) = fin_vector3 sx sy sz"
  shows "\<exists>c' es. update h now p c = Inr (c', es) \<and>
     linear (current_velocity c') = fin_vector3 (0.995 * sx) (0.995 * sy) (0.995 * sz) \<and>
     arm_id c' = arm_id c \<and> target_velocity c' = zero_twist \<and> latch_ok c'"
proof -
  obtain t where cl: "contact_clamp (contact_axes rs) (tick_latch c rs)
      (linear (target_velocity (check_staleness now c))) = Inr t"
    using update_succeeds [OF assms(1,2)] by blast
  have z: "target_velocity (check_staleness now c) = zero_twist"
    using assms(3) by (simp add: check_staleness_def)
  then have "t = zero_vector3" using cl by (simp add: contact_clamp_zero)
  then show ?thesis
    using update_eq_tick [OF assms(1) cl, of p] z assms(2,4) tick_latch_ok [OF assms(2)]
    by (simp add: zero_vector3_fin)
qed

lemma run_ticks_zero_target:
  assumes "latch_ok c" "target_velocity c = zero_twist" "handles_present c ins"
    and "linear (current_velocity c) = fin_vector3 sx sy sz"
  shows "\<exists>c'. run_ticks ins c = Inr c' \<and>
     linear (current_velocity c') =
       fin_vector3 (0.995 ^ length ins * sx) (0.995 ^ length ins * sy) (0.995 ^ length ins * sz)"
  using assms
proof (induction ins arbitrary: c sx sy sz)
  case Nil
  then show ?case by simp
next
  case (Cons i ins)
  obtain h now p where i: "i = (h, now, p)" by (cases i)
  from Cons.prems(3) i obtain rs where rs: "state_handle h c = Some rs"
    and rest: "handles_present c ins"
    by (auto simp: handles_present_def)
  obtain c1 es where u: "update h now p c = Inr (c1, es)"
    and c1: "linear (current_velocity c1) = fin_vector3 (0.995 * sx) (0.995 * sy) (0.995 * sz)"
    and same: "arm_id c1 = arm_id c" "target_velocity c1 = zero_twist" "latch_ok c1"
    using update_zero_target [OF rs Cons.prems(1,2,4), of now p] by blast
  have "handles_present c1 ins" using rest handles_present_cong [OF same(1)] by simp
  then obtain c' where r: "run_ticks ins c1 = Inr c'" and v: "linear (current_velocity c') = fin_vector3
        (0.995 ^ length ins * (0.995 * sx)) (0.995 ^ length ins * (0.995 * sy))
        (0.995 ^ length ins * (0.995 * sz))"
    using Cons.IH [OF same(3) same(2) _ c1] by blast
  have pw: "0.995 ^ length ins * (0.995 * x) = (0.995::real) ^ length (i # ins) * x" for x
    by simp
  have "run_ticks (i # ins) c = Inr c'" using u i r by simp
  with v show ?case unfolding pw by blast
qed

text \<open>
  C12. Steady state of the filter: over a run of ticks without contact in which the target
  stays fresh, each linear axis of the smoothed velocity after \<open>n\<close> ticks is
  \<open>g + 0.995 ^ n * (s_0 - g)\<close> with \<open>g = v_max / 2 * t = 0.075 * t\<close>, and this converges to
  the steady state \<open>0.075 * t\<close>: the filter has the fixed gain \<open>v_max / 2\<close>.
\<close>

theorem run_ticks_steady_state:
  assumes "linear (current_velocity c) = fin_vector3 sx sy sz"
    and "linear (target_velocity c) = fin_vector3 tx ty tz" and "fresh_free_ticks c ins"
  shows "\<exists>c'. run_ticks ins c = Inr c' \<and>
     linear (current_velocity c') = fin_vector3 (filter_closed_form (length ins) sx tx)
        (filter_closed_form (length ins) sy ty) (filter_closed_form (length ins) sz tz) \<and>
     (\<lambda>n. filter_closed_form n sx tx) \<longlonglongrightarrow> 0.075 * tx"
  using run_ticks_closed_form [of c 0 sx tx sy ty sz tz ins] assms filter_closed_form_limit
  by simp

theorem run_ticks_steady_state_witness:
  "\<exists>c'. run_ticks [(panda_handles (robot_at (flags 0 0 0) (flags 0 0 0) (flags 0 0 0)), 1, 0.001),
                    (panda_handles (robot_at (flags 0 0 0) (flags 0 0 0) (flags 0 0 0)), 1.001, 0.001)]
          (panda_ctrl (fin_vector3 0 0 0) (fin_vector3 1 0 0) 0 False None) = Inr c' \<and>
     linear (current_velocity c') = fin_vector3 (filter_closed_form 2 0 1) (filter_closed_form 2 0 0)
        (filter_closed_form 2 0 0) \<and>
     (\<lambda>n. filter_closed_form n 0 1) \<longlonglongrightarrow> 0.075 * 1"
  using run_ticks_steady_state [where c = "panda_ctrl (fin_vector3 0 0 0) (fin_vector3 1 0 0) 0 False None"
      and ins = "[(panda_handles (robot_at (flags 0 0 0) (flags 0 0 0) (flags 0 0 0)), 1, 0.001),
                  (panda_handles (robot_at (flags 0 0 0) (flags 0 0 0) (flags 0 0 0)), 1.001, 0.001)]"
      and sx = 0 and sy = 0 and sz = 0 and tx = 1 and ty = 0 and tz = 0]
  by (simp add: fresh_free_ticks_def state_handle_def contact_axes_def is_in_contact_def numeral_2_eq_2 flags_def)

text \<open>
  C13. Zero-target steady state: with the stored target zero (never set, or overwritten as
  stale), every run of ticks whose state handles are present succeeds, whatever the contact
  and collision flags, and after \<open>n\<close> ticks each linear axis of the smoothed velocity is
  \<open>0.995 ^ n\<close> times its start value; zero is a fixed point and every start value converges
  to it.
\<close>

theorem run_ticks_zero_target_decays:
  assumes "latch_ok c" and "target_velocity c = zero_twist" and "handles_present c ins"
    and "linear (current_velocity c) = fin_vector3 sx sy sz"
  shows "\<exists>c'. run_ticks ins c = Inr c' \<and>
     linear (current_velocity c') =
       fin_vector3 (0.995 ^ length ins * sx) (0.995 ^ length ins * sy) (0.995 ^ length ins * sz) \<and>
     (\<lambda>n. 0.995 ^ n * sx) \<longlonglongrightarrow> 0"
  using run_ticks_zero_target [OF assms] power_scaled_tendsto_zero [of "0.995" sx] by simp

theorem run_ticks_zero_target_decays_witness:
  "\<exists>c'. run_ticks [(panda_handles (robot_at (flags 1 0 0) (flags 0 1 0) (flags 0.05 0 0)), 5, 0.001)]
          (panda_ctrl (fin_vector3 0.02 0 0) zero_vector3 0 False None) = Inr c' \<and>
     linear (current_velocity c') = fin_vector3 (0.995 ^ 1 * 0.02) (0.995 ^ 1 * 0) (0.995 ^ 1 * 0) \<and>
     (\<lambda>n. 0.995 ^ n * (0.02::real)) \<longlonglongrightarrow> 0"
  using run_ticks_zero_target_decays [where c = "panda_ctrl (fin_vector3 0.02 0 0) zero_vector3 0 False None"
      and ins = "[(panda_handles (robot_at (flags 1 0 0) (flags 0 1 0) (flags 0.05 0 0)), 5, 0.001)]"
      and sx = "0.02" and sy = 0 and sz = 0]
  by (simp add: latch_ok_def handles_present_def state_handle_def zero_twist_def)

end
