(* ===== verification/Contact_Latch.thy ===== *)
theory Contact_Latch
  imports Convergence
begin

text \<open>
  The contact latch over a run of ticks. The specification defines the ContactLatch as
  the end-effector velocity sampled at the last false-to-true contact transition, left
  unchanged between transitions. \<open>rising_edges\<close> lists the robot states of a run at which
  such a transition happens (the contact state before the first tick is the controller's
  \<open>was_in_contact\<close>), and \<open>spec_latch\<close> is the latch the specification prescribes after
  the run; the theorem shows that \<open>run_ticks\<close> ends with exactly that latch.
\<close>

definition contact_of :: "robot_state \<Rightarrow> bool" where
  "contact_of rs = is_in_contact (contact_axes rs)"

definition rising_edges :: "bool \<Rightarrow> robot_state list \<Rightarrow> robot_state list" where
  "rising_edges prev rss =
     map snd (filter (\<lambda>(p, rs). \<not> p \<and> contact_of rs) (zip (prev # map contact_of rss) rss))"

definition spec_latch :: "double list option \<Rightarrow> bool \<Rightarrow> robot_state list \<Rightarrow> double list option" where
  "spec_latch old prev rss =
     (if rising_edges prev rss = [] then old else Some (O_dP_EE_d (last (rising_edges prev rss))))"

definition ticks_see ::
  "controller \<Rightarrow> (state_handles \<times> ros_time \<times> ros_duration) list \<Rightarrow> robot_state list \<Rightarrow> bool" where
  "ticks_see c ins rss \<longleftrightarrow> list_all2 (\<lambda>(h, _, _) rs. state_handle h c = Some rs) ins rss"

lemma rising_edges_simps [simp]:
  "rising_edges prev [] = []"
  "rising_edges prev (rs # rss) =
     (if \<not> prev \<and> contact_of rs then [rs] else []) @ rising_edges (contact_of rs) rss"
  by (simp_all add: rising_edges_def)

lemma spec_latch_Cons:
  "spec_latch (latch_update prev (contact_of rs) rs old) (contact_of rs) rss =
   spec_latch old prev (rs # rss)"
  by (simp add: spec_latch_def latch_update_def)

lemma update_arm_id: "update h now p c = Inr (c', es) \<Longrightarrow> arm_id c' = arm_id c"
  by (auto simp: update_Inr_iff)

lemma ticks_see_Cons:
  "ticks_see c ((h, now, p) # ins) rss \<longleftrightarrow>
     (\<exists>rs rss'. rss = rs # rss' \<and> state_handle h c = Some rs \<and> ticks_see c ins rss')"
  by (cases rss) (simp_all add: ticks_see_def)

lemma ticks_see_arm_id: "arm_id c' = arm_id c \<Longrightarrow> ticks_see c' ins rss = ticks_see c ins rss"
  by (simp add: ticks_see_def state_handle_def)

text \<open>
  C24. Over any run of ticks whose state handles are present, starting from a state whose
  latch is readable when the last tick saw contact, \<open>run_ticks\<close> succeeds and ends
  with the latch the specification prescribes: the end-effector velocity of the robot
  state at the last false-to-true contact transition of the run, or the latch of the
  start state when the run has no such transition; the stored contact state is that of
  the last tick.
\<close>

theorem run_ticks_latch_last_transition:
  assumes "ticks_see c ins rss" and "latch_ok c"
  shows "\<exists>c'. run_ticks ins c = Inr c' \<and> latch_ok c' \<and>
           ee_twist_cause_of_contact c' = spec_latch (ee_twist_cause_of_contact c) (was_in_contact c) rss \<and>
           was_in_contact c' = (if rss = [] then was_in_contact c else contact_of (last rss))"
  using assms
proof (induction ins arbitrary: c rss)
  case Nil
  then show ?case by (simp add: ticks_see_def spec_latch_def)
next
  case (Cons i ins)
  obtain h now p where i: "i = (h, now, p)" by (cases i) blast
  from Cons.prems(1) obtain rs rss' where rss: "rss = rs # rss'" and h: "state_handle h c = Some rs"
      and see: "ticks_see c ins rss'"
    by (auto simp: i ticks_see_Cons)
  obtain t where "contact_clamp (contact_axes rs) (tick_latch c rs)
      (linear (target_velocity (check_staleness now c))) = Inr t"
    using update_succeeds [OF h Cons.prems(2)] by blast
  then have upd: "update h now p c = Inr (tick_state now p c rs t, tick_effects rs (linear (current_velocity c)) t)"
    by (rule update_eq_tick [OF h])
  let ?c1 = "tick_state now p c rs t"
  have "ticks_see ?c1 ins rss'"
    using see ticks_see_arm_id [OF update_arm_id [OF upd]] by simp
  moreover have "latch_ok ?c1" by (rule tick_latch_ok [OF Cons.prems(2)])
  ultimately obtain c' where run: "run_ticks ins ?c1 = Inr c'" and ok: "latch_ok c'"
      and ee: "ee_twist_cause_of_contact c' = spec_latch (ee_twist_cause_of_contact ?c1) (was_in_contact ?c1) rss'"
      and was: "was_in_contact c' = (if rss' = [] then was_in_contact ?c1 else contact_of (last rss'))"
    using Cons.IH by blast
  have l: "ee_twist_cause_of_contact ?c1 = latch_update (was_in_contact c) (contact_of rs) rs (ee_twist_cause_of_contact c)"
    by (simp add: tick_latch_def contact_of_def)
  have w: "was_in_contact ?c1 = contact_of rs" by (simp add: contact_of_def)
  have "run_ticks (i # ins) c = Inr c'" using run by (simp add: i upd)
  moreover have "ee_twist_cause_of_contact c' = spec_latch (ee_twist_cause_of_contact c) (was_in_contact c) rss"
    using ee by (simp only: l w spec_latch_Cons rss)
  moreover have "was_in_contact c' = (if rss = [] then was_in_contact c else contact_of (last rss))"
    using was w by (simp add: rss)
  ultimately show ?case using ok by blast
qed


theorem run_ticks_latch_last_transition_witness:
  "\<exists>c'. run_ticks [(panda_handles (robot_at (flags 1 0 0) (flags 0 0 0) (flags 0.05 0 0)), 1, 0.001), (panda_handles (robot_at (flags 0 0 0) (flags 0 0 0) (flags 0.01 0 0)), 1.001, 0.001), (panda_handles (robot_at (flags 0 0 1) (flags 0 0 0) (flags 0 0 (-0.02))), 1.002, 0.001)]
           (panda_ctrl zero_vector3 zero_vector3 0 False None) = Inr c' \<and>
         ee_twist_cause_of_contact c' = Some (flags 0 0 (-0.02)) \<and> was_in_contact c'"
proof -
  have "ticks_see (panda_ctrl zero_vector3 zero_vector3 0 False None) [(panda_handles (robot_at (flags 1 0 0) (flags 0 0 0) (flags 0.05 0 0)), 1, 0.001), (panda_handles (robot_at (flags 0 0 0) (flags 0 0 0) (flags 0.01 0 0)), 1.001, 0.001), (panda_handles (robot_at (flags 0 0 1) (flags 0 0 0) (flags 0 0 (-0.02))), 1.002, 0.001)] [(robot_at (flags 1 0 0) (flags 0 0 0) (flags 0.05 0 0)), (robot_at (flags 0 0 0) (flags 0 0 0) (flags 0.01 0 0)), (robot_at (flags 0 0 1) (flags 0 0 0) (flags 0 0 (-0.02)))]"
    by (simp add: ticks_see_def state_handle_def)
  from run_ticks_latch_last_transition [OF this] show ?thesis
    by (simp add: latch_ok_def spec_latch_def contact_of_def contact_axes_def is_in_contact_def
        del: run_ticks.simps) blast
qed

end
