(* ===== verification/Command_Format.thy ===== *)
theory Command_Format
  imports Lifecycle
begin

text \<open>
  The format of what the controller sends. \<open>update\<close> and \<open>stopping\<close> pass a
  \<open>std::array<double, 6>\<close> to \<open>FrankaVelocityCartesianHandle::setCommand\<close> (lines
  162 and 194), which the franka hardware reads as a Cartesian twist: three linear
  components, then three angular ones. \<open>well_formed_command\<close> says an array has six
  entries and a zero angular part; the theorem shows that every command of a run, whatever
  the targets (whose angular part the code never reads), is well formed.
\<close>

definition well_formed_command :: "double list \<Rightarrow> bool" where
  "well_formed_command xs \<longleftrightarrow> length xs = 6 \<and> xs ! 3 = 0 \<and> xs ! 4 = 0 \<and> xs ! 5 = 0"

definition effects_well_formed :: "effect list \<Rightarrow> bool" where
  "effects_well_formed es \<longleftrightarrow> list_all well_formed_command (sent_commands es)"

lemma well_formed_command_of [simp]: "well_formed_command (command_of v)"
  by (simp add: well_formed_command_def command_of_def)

lemma effects_well_formed_append [simp]:
  "effects_well_formed (es @ es') \<longleftrightarrow> effects_well_formed es \<and> effects_well_formed es'"
  by (simp add: effects_well_formed_def sent_commands_def)

lemma effects_well_formed_tick [simp]:
  "effects_well_formed [SetCommand (command_of v), Publish m]"
  by (simp add: effects_well_formed_def)

lemma update_effects_well_formed:
  "update h now p c = Inr (c', es) \<Longrightarrow> effects_well_formed es"
  by (auto simp: update_Inr_iff tick_effects_eq)

lemma stopping_effects_well_formed: "effects_well_formed (snd (stopping c))"
  by (simp add: stopping_def Let_def)

lemma reach_panda_stopped: "reach (\<lambda>_. True) (((initial_sys (panda_ctrl zero_vector3 zero_vector3 0 False None) 0)\<lparr>phase := Running, ctrl := starting (ctrl (initial_sys (panda_ctrl zero_vector3 zero_vector3 0 False None) 0))\<rparr>)\<lparr>phase := Stopped, ctrl := fst (stopping (ctrl ((initial_sys (panda_ctrl zero_vector3 zero_vector3 0 False None) 0)\<lparr>phase := Running, ctrl := starting (ctrl (initial_sys (panda_ctrl zero_vector3 zero_vector3 0 False None) 0))\<rparr>))), outputs := outputs ((initial_sys (panda_ctrl zero_vector3 zero_vector3 0 False None) 0)\<lparr>phase := Running, ctrl := starting (ctrl (initial_sys (panda_ctrl zero_vector3 zero_vector3 0 False None) 0))\<rparr>) @ snd (stopping (ctrl ((initial_sys (panda_ctrl zero_vector3 zero_vector3 0 False None) 0)\<lparr>phase := Running, ctrl := starting (ctrl (initial_sys (panda_ctrl zero_vector3 zero_vector3 0 False None) 0))\<rparr>)))\<rparr>)"
proof (rule reach.step [where e = Stop])
  show "reach (\<lambda>_. True) ((initial_sys (panda_ctrl zero_vector3 zero_vector3 0 False None) 0)\<lparr>phase := Running, ctrl := starting (ctrl (initial_sys (panda_ctrl zero_vector3 zero_vector3 0 False None) 0))\<rparr>)"
    by (rule reach.step [OF reach_panda_init, where e = Start]) (simp_all add: sys_step_def initial_sys_def)
qed (simp_all add: sys_step_def initial_sys_def)

text \<open>
  C25. Type of the output: in every reachable state, whatever the environment, every
  command sent so far (by ticks and by \<open>stopping\<close>) is a six-element array whose angular
  part is zero, so the hardware reads each as a purely linear twist.
\<close>

theorem reach_commands_well_formed:
  assumes "reach P s"
  shows "list_all well_formed_command (sent_commands (outputs s))"
proof -
  have "effects_well_formed (outputs s)"
    using assms
  proof (induction rule: reach_induct_step)
    case (init params hw t c)
    then show ?case by (simp add: initial_sys_def effects_well_formed_def)
  next
    case (tick s h now p c' es)
    then show ?case by (simp add: update_effects_well_formed)
  next
    case (stop s)
    then show ?case by (simp add: stopping_effects_well_formed)
  qed simp_all
  then show ?thesis by (simp add: effects_well_formed_def)
qed

theorem reach_commands_well_formed_witness:
  "list_all well_formed_command (sent_commands (outputs (((initial_sys (panda_ctrl zero_vector3 zero_vector3 0 False None) 0)\<lparr>phase := Running, ctrl := starting (ctrl (initial_sys (panda_ctrl zero_vector3 zero_vector3 0 False None) 0))\<rparr>)\<lparr>phase := Stopped, ctrl := fst (stopping (ctrl ((initial_sys (panda_ctrl zero_vector3 zero_vector3 0 False None) 0)\<lparr>phase := Running, ctrl := starting (ctrl (initial_sys (panda_ctrl zero_vector3 zero_vector3 0 False None) 0))\<rparr>))), outputs := outputs ((initial_sys (panda_ctrl zero_vector3 zero_vector3 0 False None) 0)\<lparr>phase := Running, ctrl := starting (ctrl (initial_sys (panda_ctrl zero_vector3 zero_vector3 0 False None) 0))\<rparr>) @ snd (stopping (ctrl ((initial_sys (panda_ctrl zero_vector3 zero_vector3 0 False None) 0)\<lparr>phase := Running, ctrl := starting (ctrl (initial_sys (panda_ctrl zero_vector3 zero_vector3 0 False None) 0))\<rparr>)))\<rparr>)))"
  using reach_commands_well_formed [OF reach_panda_stopped] .

end
