(* ===== verification/Ramp_Host.thy ===== *)
theory Ramp_Host
  imports Stopping "HOL-Library.While_Combinator"
begin

text \<open>
  The host side of the shutdown ramp-down (specification section 4.3): the host calls
  \<open>stopping\<close> (lines 176-202) again and again, and the core does not end the decay by
  itself. \<open>ramp_until eps\<close> is the host loop that calls \<open>stopping\<close> while some linear
  axis of the smoothed velocity is at least \<open>eps\<close> in magnitude, written with
  \<open>while_option\<close> so that a loop that never ends is the value \<open>None\<close>. The loop
  ends for every finite velocity and every positive threshold; it never ends once an axis
  is infinite, which the NaN test of the callback lets through (Spec2Isabelle, C16).
\<close>

definition vel_below :: "double \<Rightarrow> vector3 \<Rightarrow> bool" where
  "vel_below eps v \<longleftrightarrow>
     (- eps < vx v \<and> vx v < eps) \<and> (- eps < vy v \<and> vy v < eps) \<and> (- eps < vz v \<and> vz v < eps)"

definition ramp_until :: "double \<Rightarrow> controller \<Rightarrow> controller option" where
  "ramp_until eps c =
     while_option (\<lambda>c. \<not> vel_below eps (linear (current_velocity c))) (\<lambda>c. fst (stopping c)) c"

lemma funpow_stopping: "((\<lambda>c. fst (stopping c)) ^^ n) c = ramp_down n c"
  by (induction n) simp_all

lemma vel_below_fin:
  "vel_below (Fin e) (fin_vector3 a b d) \<longleftrightarrow> \<bar>a\<bar> < e \<and> \<bar>b\<bar> < e \<and> \<bar>d\<bar> < e"
  by (auto simp: vel_below_def)

lemma stopping_pinf:
  "vx (linear (current_velocity c)) = PInf \<Longrightarrow> vx (linear (current_velocity (fst (stopping c)))) = PInf"
  by (simp add: stopping_def Let_def alpha_def)

lemma ramp_down_pinf:
  "vx (linear (current_velocity c)) = PInf \<Longrightarrow> vx (linear (current_velocity (ramp_down n c))) = PInf"
  by (induction n) (simp_all add: stopping_pinf)

lemma pinf_not_less: "\<not> PInf < x"
  by (cases x) (simp_all add: less_double_def)

lemma not_vel_below_pinf: "vx v = PInf \<Longrightarrow> \<not> vel_below eps v"
  by (simp add: vel_below_def pinf_not_less)

text \<open>
  C26. Termination of the ramp-down loop: for a finite smoothed velocity and a positive
  threshold, the host loop ends, after some number \<open>n\<close> of calls of \<open>stopping\<close>, in the
  state \<open>ramp_down n c\<close>, whose linear axes are all below the threshold in magnitude.
\<close>

theorem ramp_until_terminates:
  assumes "linear (current_velocity c) = fin_vector3 sx sy sz" and "0 < e"
  shows "\<exists>n. ramp_until (Fin e) c = Some (ramp_down n c) \<and>
             vel_below (Fin e) (linear (current_velocity (ramp_down n c)))"
proof -
  let ?b = "\<lambda>c. \<not> vel_below (Fin e) (linear (current_velocity c))"
  let ?f = "\<lambda>c. fst (stopping c)"
  obtain N1 where N1: "\<forall>n\<ge>N1. \<bar>0.995 ^ n * sx\<bar> < e"
    using power_scaled_eventually_small [of "0.995" e sx] assms(2) by auto
  obtain N2 where N2: "\<forall>n\<ge>N2. \<bar>0.995 ^ n * sy\<bar> < e"
    using power_scaled_eventually_small [of "0.995" e sy] assms(2) by auto
  obtain N3 where N3: "\<forall>n\<ge>N3. \<bar>0.995 ^ n * sz\<bar> < e"
    using power_scaled_eventually_small [of "0.995" e sz] assms(2) by auto
  have "\<not> ?b ((?f ^^ max N1 (max N2 N3)) c)"
    using N1 N2 N3 by (simp add: funpow_stopping ramp_down_fin [OF assms(1)] vel_below_fin)
  then have ex: "\<exists>k. \<not> ?b ((?f ^^ k) c)" by blast
  define k where "k = (LEAST k. \<not> ?b ((?f ^^ k) c))"
  have "ramp_until (Fin e) c = Some (ramp_down k c)"
    using ex by (simp add: ramp_until_def while_option_def k_def funpow_stopping)
  moreover have "\<not> ?b (ramp_down k c)"
    using LeastI_ex [OF ex] by (simp add: k_def funpow_stopping)
  ultimately show ?thesis by blast
qed

theorem ramp_until_terminates_witness:
  "\<exists>n. ramp_until (Fin 0.01) (panda_ctrl (fin_vector3 0.1 (-0.05) 0) zero_vector3 0 False None) =
         Some (ramp_down n (panda_ctrl (fin_vector3 0.1 (-0.05) 0) zero_vector3 0 False None)) \<and>
       vel_below (Fin 0.01)
         (linear (current_velocity (ramp_down n (panda_ctrl (fin_vector3 0.1 (-0.05) 0) zero_vector3 0 False None))))"
  by (rule ramp_until_terminates [where sx = "0.1" and sy = "-0.05" and sz = 0]) simp_all

text \<open>
  C27. The ramp-down loop never ends for an infinite velocity: once an axis of the
  smoothed velocity is \<open>+inf\<close> (a target the NaN test lets through), every call of
  \<open>stopping\<close> keeps it infinite and the host loop runs forever, whatever the threshold.
\<close>

theorem ramp_until_diverges_on_inf:
  assumes "vx (linear (current_velocity c)) = PInf"
  shows "ramp_until eps c = None"
  unfolding ramp_until_def while_option_def
  using not_vel_below_pinf ramp_down_pinf [OF assms] by (simp add: funpow_stopping)

theorem ramp_until_diverges_on_inf_witness:
  "ramp_until (Fin 0.01)
     (panda_ctrl \<lparr>vx = PInf, vy = 0, vz = 0\<rparr> zero_vector3 0 False None) = None"
  by (rule ramp_until_diverges_on_inf) simp

end
