(* ===== verification/Spec2Isabelle.thy ===== *)
theory Spec2Isabelle
  imports Run_Refinement Contact_Latch Command_Format Ramp_Host
begin

text \<open>
  \<^bold>\<open>A verified model of the Cartesian velocity controller of franka_ros_interface.\<close>

  \<^bold>\<open>The program.\<close> One C++ class, \<open>CartesianVelocityController\<close>
  (src/franka_ros_controllers/src/cartesian_velocity_controller.cpp), is loaded by the ROS
  controller manager. \<open>init\<close> (lines 18-64) binds the Cartesian velocity handle and the
  state interface of the arm named by the parameter \<open>arm_id\<close> and subscribes to
  \<open>/franka_control/target_velocity\<close>; the subscriber callback
  \<open>target_velocity_callback\<close> (66-81) copies each target twist into the shared member,
  then tests it for NaN, exits the process on a NaN and otherwise stamps its receipt time;
  \<open>starting\<close> (83-93) zeroes the smoothed velocity; \<open>update\<close> (96-173), called once
  per control period, reads the robot state (contact and collision flags, commanded
  end-effector twist), zeroes a target older than 2 s, latches the end-effector twist on a
  new contact, zeroes target components that push into a contact, smooths the target with
  \<open>alpha = 0.995\<close> and gain \<open>v_max / 2 = 0.075\<close>, scales by \<open>cos(pi/4)\<close>, zeroes the
  command on collision, sends the six-component command and publishes a status twist;
  \<open>stopping\<close> (176-202) decays the smoothed velocity once more and commands it. The
  callback (subscriber thread) and the ticks (control thread) share the controller object
  without a lock.

  \<^bold>\<open>The theories.\<close>
  \<^item> \<open>Prelude\<close>: the ROS time types, the simp collections, and the real-number facts the
    filter proofs share (convex combinations, geometric decay).
  \<^item> \<open>Double\<close>: C++ \<open>double\<close> as \<open>Fin r | PInf | NInf | NaN\<close> with the IEEE case rules
    for the special values (after the IEEE_Floating_Point entry) and exact arithmetic on
    finite values; \<open>x != x\<close> holds exactly for NaN.
  \<^item> \<open>Messages\<close>: \<open>geometry_msgs::Vector3\<close>/\<open>Twist\<close> as records, the part of
    \<open>franka::RobotState\<close> the controller reads, the hardware seen by \<open>init\<close>, and the
    two effects of a tick (\<open>SetCommand\<close>, \<open>Publish\<close>), in the order the code performs them.
  \<^item> \<open>Controller\<close>: the class members as the record \<open>controller\<close>; \<open>init\<close> with its
    four error returns as \<open>init_error + controller\<close> (C20); \<open>starting\<close>.
  \<^item> \<open>Target_Buffer\<close>: the callback in its two parts, \<open>callback_store\<close> (line 67) and
    \<open>callback_finish\<close> (NaN test, \<open>exit(-1)\<close> as \<open>Exit (-1)\<close>, time stamp; 69-80);
    \<open>target_velocity_callback\<close> is their composition.
  \<^item> \<open>Shaping\<close>: \<open>update\<close>, composed of one definition per step of the source
    (\<open>contact_axes\<close>, \<open>check_staleness\<close>, \<open>latch_update\<close>, \<open>clamp_axis\<close>,
    \<open>contact_clamp\<close>, \<open>smooth_axis\<close>, \<open>smooth_linear\<close>, \<open>derate\<close>,
    \<open>is_in_collision\<close>, \<open>output_of\<close>, \<open>command_of\<close>, \<open>status_msg\<close>). Its two
    failures are values of \<open>update_error\<close>: the uncaught exception of a missing state
    handle, and a read of the latch before any contact transition wrote it (an
    uninitialised member in C++). Lemmas: \<open>update_Inr_iff\<close> and \<open>update_eq_tick\<close> give
    the result of a tick in one equation; C1-C4 are its functional and safety properties,
    all three axes at once.
  \<^item> \<open>Stopping\<close>: \<open>stopping\<close> and its \<open>n\<close>-fold call \<open>ramp_down\<close> (C5, C6).
  \<^item> \<open>Lifecycle\<close>: the controller manager and the two threads as a step function
    \<open>sys_step\<close> over phases \<open>Initialized/Running/Stopped/Exited\<close> and events
    (\<open>Start\<close>, \<open>Tick\<close>, \<open>Stop\<close>, \<open>Target_msg\<close> for the callback's store,
    \<open>Callback_done\<close> for its test and stamp), so that ticks can run inside a callback;
    time monotone; ghost fields for the last accepted message, the time the step accepted
    it, the callback in flight and whether a tick ever ran inside one; reachable states
    \<open>reach P\<close> from a successful \<open>init\<close> for an environment whose events satisfy \<open>P\<close>;
    a rule-induction principle with one case per kind of step. A tick fails only on a
    missing handle (C7); the stored target refines the specification's per-tick
    staleness rule, measured from the ghost receipt time (C8); a NaN ends the process when
    its callback completes (C9); a missing handle ends it (C21).
  \<^item> \<open>Bounds\<close>: for targets bounded by \<open>M\<close>, the smoothed velocity and every command
    stay within \<open>0.075 * M\<close> (C10) and a tick moves an axis by at most \<open>0.00075 * M\<close>
    (C11).
  \<^item> \<open>Abstract_Tick\<close>: the specification's per-tick algorithm (section 4.2) as
    \<open>spec_tick\<close> on real vectors, with an abstract state of smoothed velocity, contact
    latch and previous contact state; the abstraction \<open>abs_ctrl\<close> of the code's state;
    and the functional refinement: on finite values \<open>update\<close> succeeds, its new state
    abstracts to the state after \<open>spec_tick\<close> and its command is the abstract command
    (C22).
  \<^item> \<open>Run_Refinement\<close>: the same refinement for every tick of a run, with the
    specification's effective target (C23), for environments that send finite targets
    and report finite end-effector twists (\<open>env_finite\<close>), by the invariant that every
    reachable state has finite values.
  \<^item> \<open>Convergence\<close>: the host's tick loop \<open>run_ticks\<close>; the closed form and limit of
    the filter for a fresh constant target (C12) and the decay for a zero target (C13).
  \<^item> \<open>Contact_Latch\<close>: over any run of ticks the latch is the end-effector twist at the
    last false-to-true contact transition, as the specification defines the ContactLatch
    (C24).
  \<^item> \<open>Command_Format\<close>: every command of a run is six elements with a zero angular
    part (C25).
  \<^item> \<open>Ramp_Host\<close>: the host loop that calls \<open>stopping\<close> until the velocity is below a
    threshold, as \<open>while_option\<close>: it ends for finite velocities (C26) and never ends
    for an infinite one (C27).
  \<^item> \<open>Scenarios\<close>: concrete arms, robot states and controller states for the witnesses.
  \<^item> This theory: properties that span components and the findings: the specification's
    smoothing bound fails whenever the smoothed velocity and the target have opposite
    signs (C14); the command jumps at shutdown
    (C15); an infinite target passes the NaN test and is commanded (C16); a NaN target is
    commanded by a tick that runs between the callback's store and its test (C17); the
    status message mixes axes (C18); a restart keeps the old contact latch (C19).

  \<^bold>\<open>Bounds and fuel.\<close> No fuel is needed: every loop of the model is structural
  (\<open>ramp_down\<close> on \<open>n\<close>, \<open>run_ticks\<close> on its list of ticks), and every operation of
  the source is a total function, so the tick-returns theorems state success outright.
  The one loop that may run forever, the host's \<open>ramp_until\<close>, is a \<open>while_option\<close>;
  C26 proves that it returns and C27 that it does not on an infinite velocity.

  \<^bold>\<open>Not modelled.\<close> Rounding and overflow of finite doubles (the model's finite
  arithmetic is exact, so no property here says anything about overflow; the ramp-down
  never reaches zero in the model, whereas binary64 underflows after about 150000 calls);
  \<open>M_PI\<close> is taken as \<open>pi\<close>; interleaving finer than the callback's two parts (a tick
  reading a half-copied message; the model copies the message at once); runs with
  non-monotone ROS time (\<open>sys_step\<close> refuses an event earlier than its clock); the
  creation of the subscriber and publisher, parameter lookup beyond \<open>arm_id\<close>, logging
  and the pluginlib export; \<open>elapsed_time_\<close> is kept but never read by the code.

  \<^bold>\<open>Plan for later work.\<close> Rounding of binary64 arithmetic in the filter (the model
  is exact); the franka library's own command checks (rate and acceleration limits).
\<close>

lemma smooth_axis_pinf [simp]: "smooth_axis (Fin s) PInf = PInf"
  by (simp add: smooth_axis_def alpha_def v_max_def)

lemma contact_clamp_finite:
  assumes "contact_clamp axes l v = Inr t" "vector3_finite v"
  shows "vector3_finite t"
proof -
  obtain a b c where "v = fin_vector3 a b c" using assms(2) by (auto simp: vector3_finite_iff)
  then have "bounded_vec (\<bar>a\<bar> + \<bar>b\<bar> + \<bar>c\<bar>) v" by simp
  from contact_clamp_bounded [OF assms(1) this] show ?thesis
    by (auto simp: bounded_vec_def vector3_finite_iff)
qed

lemma clamp_axis_nan [simp]: "clamp_axis b NaN e = NaN"
  by (simp add: clamp_axis_def)

lemma contact_clamp_nan:
  "contact_clamp axes l v = Inr t \<Longrightarrow> vx v = NaN \<Longrightarrow> vx t = NaN"
  by (cases axes) (auto simp: contact_clamp_def split: if_splits option.splits)

lemma smooth_axis_nan [simp]: "smooth_axis s NaN = NaN"
  by (simp add: smooth_axis_def)

lemma sqrt2_half_jump: "0.28 * \<bar>a\<bar> \<le> \<bar>0.995 * a - sqrt 2 / 2 * (a::real)\<bar>"
proof -
  define k :: real where "k = 0.995 - sqrt 2 / 2"
  have k: "0.28 \<le> k" using sqrt2_half_bounds by (simp add: k_def)
  have "0.995 * a - sqrt 2 / 2 * a = k * a" by (simp add: k_def algebra_simps)
  moreover have "\<bar>k * a\<bar> = k * \<bar>a\<bar>" using k by (simp add: abs_mult)
  moreover have "0.28 * \<bar>a\<bar> \<le> k * \<bar>a\<bar>" using k by (rule mult_right_mono) simp
  ultimately show ?thesis by simp
qed

text \<open>
  C14. The smoothing bound of the specification (section 8), a change of the smoothed
  velocity of at most \<open>(1 - alpha) * v_max / 2 * max |target|\<close> between consecutive
  ticks, does not hold for the code's filter: whenever the smoothed x velocity and the
  x target have opposite signs (a target reversal) and x carries the largest target
  component, a fresh tick without contact changes the smoothed x velocity by
  \<open>0.005 * |s| + 0.000375 * |t|\<close>, strictly more than the bound.
\<close>

theorem spec_smoothing_bound_violated:
  assumes "state_handle h c = Some rs" and "\<not> is_in_contact (contact_axes rs)"
    and "now - time_since_last_target_velocity c \<le> 2"
    and "linear (current_velocity c) = fin_vector3 sx sy sz"
    and "linear (target_velocity c) = fin_vector3 tx ty tz"
    and "sx * tx < 0" and "\<bar>ty\<bar> \<le> \<bar>tx\<bar>" and "\<bar>tz\<bar> \<le> \<bar>tx\<bar>"
  shows "\<exists>c' es a. update h now p c = Inr (c', es) \<and> vx (linear (current_velocity c')) = Fin a \<and>
           (1 - 0.995) * (0.15 / 2) * max \<bar>tx\<bar> (max \<bar>ty\<bar> \<bar>tz\<bar>) < \<bar>a - sx\<bar>"
proof -
  have cl: "contact_clamp (contact_axes rs) (tick_latch c rs)
      (linear (target_velocity (check_staleness now c))) = Inr (fin_vector3 tx ty tz)"
    using assms(2,3,5) by (simp add: contact_clamp_no_contact check_staleness_fresh)
  define a where "a = 0.995 * sx + 0.000375 * tx"
  have "\<bar>a - sx\<bar> = 0.005 * \<bar>sx\<bar> + 0.000375 * \<bar>tx\<bar>"
    using assms(6) by (auto simp: a_def mult_less_0_iff abs_if)
  moreover have "sx \<noteq> 0" using assms(6) by auto
  moreover have "max \<bar>tx\<bar> (max \<bar>ty\<bar> \<bar>tz\<bar>) = \<bar>tx\<bar>" using assms(7,8) by simp
  ultimately have "(1 - 0.995) * (0.15 / 2) * max \<bar>tx\<bar> (max \<bar>ty\<bar> \<bar>tz\<bar>) < \<bar>a - sx\<bar>" by simp
  moreover have "vx (linear (current_velocity (tick_state now p c rs (fin_vector3 tx ty tz)))) = Fin a"
    using assms(4) by (simp add: a_def)
  ultimately show ?thesis using update_eq_tick [OF assms(1) cl, of p] by blast
qed

theorem spec_smoothing_bound_violated_witness:
  "\<exists>c' es a. update (panda_handles (robot_at (flags 0 0 0) (flags 0 0 0) (flags 0 0 0))) 1.001 0.001
        (panda_ctrl (fin_vector3 0.000375 0 0) (fin_vector3 (-1) 0 0) 1 False None) = Inr (c', es) \<and>
     vx (linear (current_velocity c')) = Fin a \<and>
     (1 - 0.995) * (0.15 / 2) * max \<bar>-1::real\<bar> (max \<bar>0::real\<bar> \<bar>0::real\<bar>) < \<bar>a - 0.000375\<bar>"
  by (rule spec_smoothing_bound_violated [where rs = "robot_at (flags 0 0 0) (flags 0 0 0) (flags 0 0 0)"
        and sy = 0 and sz = 0 and ty = 0 and tz = 0])
     (simp_all add: state_handle_def contact_axes_def is_in_contact_def)

text \<open>
  C15. The shutdown ramp-down is not continuous with the last tick: a tick commands
  \<open>cos(pi/4) * s = sqrt 2 / 2 * s\<close> on each linear axis, and the call of \<open>stopping\<close>
  that follows commands \<open>0.995 * s\<close>, without the de-rate. The command jumps by at
  least \<open>0.28 * |s|\<close>, about forty percent of the last command, although the source
  comment of \<open>stopping\<close> forbids a jump of the command at shutdown.
\<close>

theorem stopping_after_tick_jumps:
  assumes "state_handle h c = Some rs" and "latch_ok c" and "\<not> is_in_collision rs"
    and "vector3_finite (linear (current_velocity c))" and "vector3_finite (linear (target_velocity c))"
  shows "\<exists>c' es a b d. update h now p c = Inr (c', es) \<and> linear (current_velocity c') = fin_vector3 a b d \<and>
     sent_commands es = [[Fin (sqrt 2 / 2 * a), Fin (sqrt 2 / 2 * b), Fin (sqrt 2 / 2 * d), Fin 0, Fin 0, Fin 0]] \<and>
     sent_commands (snd (stopping c')) = [[Fin (0.995 * a), Fin (0.995 * b), Fin (0.995 * d), Fin 0, Fin 0, Fin 0]] \<and>
     0.28 * \<bar>a\<bar> \<le> \<bar>0.995 * a - sqrt 2 / 2 * a\<bar>"
proof -
  obtain t where cl: "contact_clamp (contact_axes rs) (tick_latch c rs)
      (linear (target_velocity (check_staleness now c))) = Inr t"
    using update_succeeds [OF assms(1,2)] by blast
  have "vector3_finite (linear (target_velocity (check_staleness now c)))"
    using assms(5) by (simp add: check_staleness_def)
  then obtain x y z where t: "t = fin_vector3 x y z"
    using contact_clamp_finite [OF cl] by (auto simp: vector3_finite_iff)
  obtain sx sy sz where s: "linear (current_velocity c) = fin_vector3 sx sy sz"
    using assms(4) by (auto simp: vector3_finite_iff)
  define a where "a = 0.995 * sx + 0.000375 * x"
  define b where "b = 0.995 * sy + 0.000375 * y"
  define d where "d = 0.995 * sz + 0.000375 * z"
  have u: "update h now p c = Inr (tick_state now p c rs t, tick_effects rs (linear (current_velocity c)) t)"
    by (rule update_eq_tick [OF assms(1) cl])
  have v: "linear (current_velocity (tick_state now p c rs t)) = fin_vector3 a b d"
    by (simp add: s t a_def b_def d_def)
  have e: "sent_commands (tick_effects rs (linear (current_velocity c)) t) =
      [[Fin (sqrt 2 / 2 * a), Fin (sqrt 2 / 2 * b), Fin (sqrt 2 / 2 * d), Fin 0, Fin 0, Fin 0]]"
    using assms(3) by (simp add: tick_effects_eq output_of_def s t a_def b_def d_def command_of_fin)
  have st: "sent_commands (snd (stopping (tick_state now p c rs t))) =
      [[Fin (0.995 * a), Fin (0.995 * b), Fin (0.995 * d), Fin 0, Fin 0, Fin 0]]"
    using stopping_fin [OF v] by simp
  show ?thesis using u v e st sqrt2_half_jump [of a] by blast
qed

theorem stopping_after_tick_jumps_witness:
  "\<exists>c' es a b d. update (panda_handles (robot_at (flags 0 0 0) (flags 0 0 0) (flags 0 0 0))) 1 0.001
        (panda_ctrl (fin_vector3 0.05 0 0) (fin_vector3 1 0 0) 0 False None) = Inr (c', es) \<and>
     linear (current_velocity c') = fin_vector3 a b d \<and>
     sent_commands es = [[Fin (sqrt 2 / 2 * a), Fin (sqrt 2 / 2 * b), Fin (sqrt 2 / 2 * d), Fin 0, Fin 0, Fin 0]] \<and>
     sent_commands (snd (stopping c')) = [[Fin (0.995 * a), Fin (0.995 * b), Fin (0.995 * d), Fin 0, Fin 0, Fin 0]] \<and>
     0.28 * \<bar>a\<bar> \<le> \<bar>0.995 * a - sqrt 2 / 2 * a\<bar>"
  by (rule stopping_after_tick_jumps [where rs = "robot_at (flags 0 0 0) (flags 0 0 0) (flags 0 0 0)"])
     (simp_all add: state_handle_def latch_ok_def is_in_collision_def vector3_finite_def)

text \<open>
  C16. The target callback rejects NaN but not infinity (the test is \<open>x != x\<close>): a
  message with \<open>linear.x = +inf\<close> is stored, and the next fresh tick without contact or
  collision makes the smoothed x velocity \<open>+inf\<close> and commands \<open>+inf\<close> to the robot,
  although the specification requires every non-finite component to be rejected.
\<close>

theorem infinite_target_commanded:
  assumes "state_handle h c = Some rs" and "\<not> is_in_contact (contact_axes rs)"
    and "\<not> is_in_collision rs" and "vx (linear (current_velocity c)) = Fin sx" and "now - tm \<le> 2"
  shows "\<exists>c1 c2 es u. target_velocity_callback
              \<lparr>linear = \<lparr>vx = PInf, vy = 0, vz = 0\<rparr>, angular = zero_vector3\<rparr> tm c = Inr c1 \<and>
           update h now p c1 = Inr (c2, es) \<and> vx (linear (current_velocity c2)) = PInf \<and>
           sent_commands es = [u] \<and> u ! 0 = PInf"
proof -
  let ?m = "\<lparr>linear = \<lparr>vx = PInf, vy = 0, vz = 0\<rparr>, angular = zero_vector3\<rparr>"
  define c1 where "c1 = c\<lparr>target_velocity := ?m, time_since_last_target_velocity := tm\<rparr>"
  have cb: "target_velocity_callback ?m tm c = Inr c1"
    by (simp add: c1_def callback_Inr has_nan_def dneq_def)
  have h1: "state_handle h c1 = Some rs" using assms(1) by (simp add: c1_def state_handle_def)
  have cl: "contact_clamp (contact_axes rs) (tick_latch c1 rs)
      (linear (target_velocity (check_staleness now c1))) = Inr (linear ?m)"
    using assms(2,5) by (simp add: contact_clamp_no_contact check_staleness_def c1_def)
  have pos: "(0::real) < sqrt 2 / 2" using sqrt2_half_bounds by simp
  show ?thesis
    using cb update_eq_tick [OF h1 cl, of p] assms(3,4) pos
    by (auto simp: c1_def tick_effects_eq output_of_def smooth_linear_def derate_def command_of_def)
qed

theorem infinite_target_commanded_witness:
  "\<exists>c1 c2 es u. target_velocity_callback
              \<lparr>linear = \<lparr>vx = PInf, vy = 0, vz = 0\<rparr>, angular = zero_vector3\<rparr> 1
              (panda_ctrl (fin_vector3 0 0 0) zero_vector3 0 False None) = Inr c1 \<and>
           update (panda_handles (robot_at (flags 0 0 0) (flags 0 0 0) (flags 0 0 0))) 1.5 0.001 c1 = Inr (c2, es) \<and>
           vx (linear (current_velocity c2)) = PInf \<and> sent_commands es = [u] \<and> u ! 0 = PInf"
  by (rule infinite_target_commanded
      [where rs = "robot_at (flags 0 0 0) (flags 0 0 0) (flags 0 0 0)" and sx = 0])
     (simp_all add: state_handle_def contact_axes_def is_in_contact_def is_in_collision_def)

text \<open>
  C17. The callback stores a message into the shared \<open>target_velocity\<close> (line 67)
  before it tests it for NaN (lines 69-74) and exits (line 77), with no lock against the
  control thread. In every reachable running state with no callback in flight, if a
  message with a NaN x component arrives while the stored target is fresh, a tick that
  runs before the callback's test commands NaN on the x axis to the robot, and the
  controller keeps running: the specification's promise that a NaN is never sent does not
  hold for the code.
\<close>

theorem nan_target_commanded_before_exit:
  assumes "reach P s" and "phase s = Running" and "pending s = None" and "clock s \<le> now"
    and "now - time_since_last_target_velocity (ctrl s) \<le> 2"
    and "state_handle h (ctrl s) = Some rs" and "\<not> is_in_collision rs" and "vx (linear m) = NaN"
  shows "\<exists>s1 s2 xs. sys_step s (Target_msg m now) = Some s1 \<and> sys_step s1 (Tick h now p) = Some s2 \<and>
           phase s2 = Running \<and> pending s2 = Some m \<and>
           sent_commands (outputs s2) = sent_commands (outputs s) @ [xs] \<and> xs ! 0 = NaN"
proof -
  define c1 where "c1 = callback_store m (ctrl s)"
  define s1 where "s1 = s\<lparr>ctrl := c1, clock := now, pending := Some m\<rparr>"
  have st1: "sys_step s (Target_msg m now) = Some s1"
    using assms(2-4) by (simp add: sys_step_def s1_def c1_def)
  have h1: "state_handle h c1 = Some rs"
    using assms(6) by (simp add: c1_def callback_store_def state_handle_def)
  have ok: "latch_ok c1"
    using reach_latch_ok [OF assms(1)] by (simp add: c1_def callback_store_def latch_ok_def)
  obtain t where cl: "contact_clamp (contact_axes rs) (tick_latch c1 rs)
      (linear (target_velocity (check_staleness now c1))) = Inr t"
    using update_succeeds [OF h1 ok] by blast
  have "vx (linear (target_velocity (check_staleness now c1))) = NaN"
    using assms(5,8) by (simp add: c1_def callback_store_def check_staleness_fresh)
  with cl have tx: "vx t = NaN" by (rule contact_clamp_nan)
  have upd: "update h now p c1 = Inr (tick_state now p c1 rs t, tick_effects rs (linear (current_velocity c1)) t)"
    by (rule update_eq_tick [OF h1 cl])
  let ?s2 = "s1\<lparr>ctrl := tick_state now p c1 rs t, clock := now,
              outputs := outputs s1 @ tick_effects rs (linear (current_velocity c1)) t,
              tick_in_callback := True\<rparr>"
  have st2: "sys_step s1 (Tick h now p) = Some ?s2"
    using assms(2) upd by (simp add: sys_step_def s1_def)
  have "sent_commands (outputs ?s2) =
      sent_commands (outputs s) @ [command_of (output_of rs (smooth_linear (linear (current_velocity c1)) t))]"
    by (simp add: s1_def tick_effects_eq sent_commands_def)
  moreover have "command_of (output_of rs (smooth_linear (linear (current_velocity c1)) t)) ! 0 = NaN"
    using assms(7) tx by (simp add: command_of_def output_of_def derate_def smooth_linear_def)
  ultimately show ?thesis using st1 st2 assms(2) by (auto simp: s1_def)
qed

theorem nan_target_commanded_before_exit_witness:
  "\<exists>s1 s2 xs. sys_step ((initial_sys (panda_ctrl zero_vector3 zero_vector3 0 False None) 0)\<lparr>phase := Running, ctrl := starting (ctrl (initial_sys (panda_ctrl zero_vector3 zero_vector3 0 False None) 0))\<rparr>) (Target_msg (\<lparr>linear = \<lparr>vx = NaN, vy = 0, vz = 0\<rparr>, angular = zero_vector3\<rparr>) 1) = Some s1 \<and>
     sys_step s1 (Tick (panda_handles (robot_at (flags 0 0 0) (flags 0 0 0) (flags 0 0 0))) 1 0.001) = Some s2 \<and>
     phase s2 = Running \<and> pending s2 = Some (\<lparr>linear = \<lparr>vx = NaN, vy = 0, vz = 0\<rparr>, angular = zero_vector3\<rparr>) \<and>
     sent_commands (outputs s2) = sent_commands (outputs ((initial_sys (panda_ctrl zero_vector3 zero_vector3 0 False None) 0)\<lparr>phase := Running, ctrl := starting (ctrl (initial_sys (panda_ctrl zero_vector3 zero_vector3 0 False None) 0))\<rparr>)) @ [xs] \<and> xs ! 0 = NaN"
  by (rule nan_target_commanded_before_exit [OF reach_panda_running [where P = "\<lambda>_. True"], where rs = "(robot_at (flags 0 0 0) (flags 0 0 0) (flags 0 0 0))"])
     (simp_all add: initial_sys_def starting_def state_handle_def is_in_collision_def)

text \<open>
  C18. Every successful tick sends the command \<open>[v_x, v_y, v_z, 0, 0, 0]\<close> (zero on the
  angular axes) and then publishes a status twist whose six components are
  \<open>[v_x, 0, 0, 0, v_y, v_z]\<close>: the published message carries the y and z commands in its
  angular fields, so it does not report the command that was sent.
\<close>

theorem tick_status_mixes_axes:
  assumes "state_handle h c = Some rs" and "latch_ok c"
  shows "\<exists>c' v. update h now p c = Inr (c', [SetCommand (command_of v), Publish (status_msg v)]) \<and>
     command_of v = [vx v, vy v, vz v, Fin 0, Fin 0, Fin 0] \<and>
     twist_components (status_msg v) = [vx v, Fin 0, Fin 0, Fin 0, vy v, vz v]"
proof -
  obtain t where cl: "contact_clamp (contact_axes rs) (tick_latch c rs)
      (linear (target_velocity (check_staleness now c))) = Inr t"
    using update_succeeds [OF assms] by blast
  show ?thesis
    using update_eq_tick [OF assms(1) cl, of p]
    by (auto simp: tick_effects_eq command_of_def status_msg_def twist_components_def)
qed

theorem tick_status_mixes_axes_witness:
  "\<exists>c' v. update (panda_handles (robot_at (flags 0 0 0) (flags 0 0 0) (flags 0 0 0))) 1 0.001
        (panda_ctrl (fin_vector3 0.01 0.02 0.03) (fin_vector3 1 1 1) 0 False None) =
        Inr (c', [SetCommand (command_of v), Publish (status_msg v)]) \<and>
     command_of v = [vx v, vy v, vz v, Fin 0, Fin 0, Fin 0] \<and>
     twist_components (status_msg v) = [vx v, Fin 0, Fin 0, Fin 0, vy v, vz v]"
  by (rule tick_status_mixes_axes [where rs = "robot_at (flags 0 0 0) (flags 0 0 0) (flags 0 0 0)"])
     (simp_all add: state_handle_def latch_ok_def)

text \<open>
  C19. \<open>starting\<close> resets the smoothed velocity but not the contact memory: when the arm
  was in contact before a stop and is still in contact at the first tick after the restart,
  that tick sees no false-to-true transition and keeps the latch of the previous run, so the
  clamp directions come from the twist commanded before the restart, not from the robot's
  current commanded twist. The specification does not say what a restart does to the latch.
\<close>

theorem restart_keeps_old_latch:
  assumes "was_in_contact c" and "ee_twist_cause_of_contact c = Some e"
    and "state_handle h c = Some rs" and "is_in_contact (contact_axes rs)"
  shows "\<exists>c' es. update h now p (starting c) = Inr (c', es) \<and>
           ee_twist_cause_of_contact c' = Some e \<and> linear (current_velocity (starting c)) = zero_vector3"
proof -
  have h: "state_handle h (starting c) = Some rs" using assms(3) by (simp add: state_handle_def starting_def)
  have ok: "latch_ok (starting c)" using assms(2) by (simp add: latch_ok_def starting_def)
  obtain t where cl: "contact_clamp (contact_axes rs) (tick_latch (starting c) rs)
      (linear (target_velocity (check_staleness now (starting c)))) = Inr t"
    using update_succeeds [OF h ok] by blast
  have "tick_latch (starting c) rs = Some e"
    using assms(1,2) by (simp add: tick_latch_def latch_update_def starting_def)
  then show ?thesis using update_eq_tick [OF h cl, of p] by (simp add: starting_def)
qed

theorem restart_keeps_old_latch_witness:
  "\<exists>c' es. update (panda_handles (robot_at (flags 1 0 0) (flags 0 0 0) (flags (-0.05) 0 0))) 10 0.001
        (starting (panda_ctrl (fin_vector3 0.01 0 0) zero_vector3 0 True (Some (flags 0.05 0 0)))) = Inr (c', es) \<and>
     ee_twist_cause_of_contact c' = Some (flags 0.05 0 0) \<and>
     linear (current_velocity (starting (panda_ctrl (fin_vector3 0.01 0 0) zero_vector3 0 True (Some (flags 0.05 0 0))))) = zero_vector3"
  by (rule restart_keeps_old_latch [where rs = "robot_at (flags 1 0 0) (flags 0 0 0) (flags (-0.05) 0 0)"])
     (simp_all add: state_handle_def contact_axes_def is_in_contact_def)

end
